theory Spec2Isabelle
  imports Main "HOL-Library.Char_ord" "HOL-Library.List_Lexorder" "HOL-Library.Multiset"
begin

section \<open>Values and documents\<close>

text \<open>
  The scraper passes documents around as Python dictionaries from field names to
  values.  The values that occur in the pipeline are \<^verbatim>\<open>None\<close>, strings, lists of
  strings (\<^verbatim>\<open>companies\<close>, \<^verbatim>\<open>products\<close>) and the match-details dictionary built
  by \<^verbatim>\<open>is_match\<close>.  A dictionary is an association list: \<^verbatim>\<open>d[k] = v\<close> replaces
  the value of an existing key in place and appends a new key at the end, which is
  the insertion order a Python dictionary keeps.  Strings are lists of characters,
  one \<^typ>\<open>char\<close> per code point: the texts of the model are those of code points
  below 256, and the character classes below are Python's on these code points.
\<close>

datatype error = TypeError | OverflowError | GatewayError string

record match_detail =
  md_measure_keywords :: "string list"
  md_product_keywords :: "string list"
  md_place_company_keywords :: "string list"
  md_groups_matched :: nat
  md_total_groups :: nat
  md_matched_text_snippets :: "string list"
  md_match_score :: nat

datatype pyval = PNone | PStr string | PStrs "string list" | PDetails match_detail

type_synonym document = "(string \<times> pyval) list"

text \<open>Truthiness, as \<^verbatim>\<open>if v:\<close> tests it; the match-details dictionary has seven keys.\<close>

fun truthy :: "pyval \<Rightarrow> bool" where
  "truthy PNone = False"
| "truthy (PStr s) = (s \<noteq> [])"
| "truthy (PStrs l) = (l \<noteq> [])"
| "truthy (PDetails m) = True"

text \<open>Lists and dictionaries are unhashable: a set operation on one raises \<^verbatim>\<open>TypeError\<close>.\<close>

fun hashable :: "pyval \<Rightarrow> bool" where
  "hashable PNone = True"
| "hashable (PStr s) = True"
| "hashable (PStrs l) = False"
| "hashable (PDetails m) = False"

text \<open>\<^verbatim>\<open>doc.get(k)\<close> and \<^verbatim>\<open>doc.get(k, default)\<close>.\<close>

definition doc_get_default :: "document \<Rightarrow> string \<Rightarrow> pyval \<Rightarrow> pyval" where
  "doc_get_default doc k dflt = (case map_of doc k of None \<Rightarrow> dflt | Some v \<Rightarrow> v)"

definition doc_get :: "document \<Rightarrow> string \<Rightarrow> pyval" where
  "doc_get doc k = doc_get_default doc k PNone"

text \<open>\<^verbatim>\<open>doc[k] = v\<close>.\<close>

fun doc_set :: "document \<Rightarrow> string \<Rightarrow> pyval \<Rightarrow> document" where
  "doc_set [] k v = [(k, v)]"
| "doc_set ((k', v') # rest) k v =
     (if k' = k then (k, v) # rest else (k', v') # doc_set rest k v)"

section \<open>Keyword matching (matcher.py)\<close>

subsection \<open>Text normalisation\<close>

text \<open>A character whose code point lies between those of two characters.\<close>

definition in_range :: "char \<Rightarrow> char \<Rightarrow> char \<Rightarrow> bool" where
  "in_range lo hi c = (lo \<le> c \<and> c \<le> hi)"

text \<open>The decimal digits \<^verbatim>\<open>\d\<close> matches below code point 256.\<close>

definition is_digit :: "char \<Rightarrow> bool" where
  "is_digit c = (CHR ''0'' \<le> c \<and> c \<le> CHR ''9'')"

text \<open>
  The characters \<^verbatim>\<open>str.lower\<close> changes: \<^verbatim>\<open>A\<close> to \<^verbatim>\<open>Z\<close> and the capital letters
  \<^verbatim>\<open>U+00C0\<close> to \<^verbatim>\<open>U+00DE\<close> without the multiplication sign \<^verbatim>\<open>U+00D7\<close>.  Each
  becomes the character 32 code points further.
\<close>

definition is_upper :: "char \<Rightarrow> bool" where
  "is_upper c =
     (in_range (CHR ''A'') (CHR ''Z'') c \<or> in_range (CHR 0xC0) (CHR 0xD6) c \<or>
      in_range (CHR 0xD8) (CHR 0xDE) c)"

definition lower_char :: "char \<Rightarrow> char" where
  "lower_char c = (if is_upper c then char_of (of_char c + (32::nat)) else c)"

text \<open>The characters \<^verbatim>\<open>str.strip\<close> removes: tab to carriage return, the four
  separators \<^verbatim>\<open>0x1c\<close> to \<^verbatim>\<open>0x1f\<close>, the space, \<^verbatim>\<open>U+0085\<close> and \<^verbatim>\<open>U+00A0\<close>.\<close>

definition is_space :: "char \<Rightarrow> bool" where
  "is_space c =
     (in_range (CHR 0x09) (CHR 0x0D) c \<or> in_range (CHR 0x1C) (CHR 0x20) c \<or>
      c = CHR 0x85 \<or> c = CHR 0xA0)"

definition strip :: "string \<Rightarrow> string" where
  "strip s = rev (dropWhile is_space (rev (dropWhile is_space s)))"

definition normalize_text :: "string \<Rightarrow> string" where
  "normalize_text text = (if text = [] then [] else strip (map lower_char text))"

subsection \<open>The regular expressions the matcher builds\<close>

text \<open>
  The matcher hands \<^verbatim>\<open>re.search\<close> patterns of four kinds of items only: a literal
  character, \<^verbatim>\<open>\w*\<close>, \<^verbatim>\<open>\b\<close>, and the group
  \<^verbatim>\<open>(?:\b|(?<=\bin)|(?<=\bfrom)|(?<=\bto)|(?<=\bof))\<close> that opens the pattern
  of a keyword without wildcard.  A position in the text is the pair of the text
  already read, reversed, and the text still to read.
\<close>

datatype regex_item = Lit char | WordStar | Boundary | KeywordStart

text \<open>
  The characters \<^verbatim>\<open>\w\<close> matches in a pattern on \<^verbatim>\<open>str\<close>: the alphanumeric
  characters and the underscore.  Beyond ASCII these are the ordinal indicators, the
  superscript digits, the micro sign, the three fractions and the accented letters.
\<close>

definition is_word_char :: "char \<Rightarrow> bool" where
  "is_word_char c =
     (in_range (CHR ''0'') (CHR ''9'') c \<or> in_range (CHR ''A'') (CHR ''Z'') c \<or>
      c = CHR ''_'' \<or> in_range (CHR ''a'') (CHR ''z'') c \<or>
      c = CHR 0xAA \<or> in_range (CHR 0xB2) (CHR 0xB3) c \<or> c = CHR 0xB5 \<or>
      in_range (CHR 0xB9) (CHR 0xBA) c \<or> in_range (CHR 0xBC) (CHR 0xBE) c \<or>
      in_range (CHR 0xC0) (CHR 0xD6) c \<or> in_range (CHR 0xD8) (CHR 0xF6) c \<or>
      in_range (CHR 0xF8) (CHR 0xFF) c)"

text \<open>Whether the character next to a position, on one side, is a word character.\<close>

fun word_next :: "string \<Rightarrow> bool" where
  "word_next [] = False"
| "word_next (c # cs) = is_word_char c"

text \<open>\<^verbatim>\<open>\b\<close>: a word character on exactly one side.\<close>

definition boundary :: "string \<Rightarrow> string \<Rightarrow> bool" where
  "boundary seen rest = (word_next seen \<noteq> word_next rest)"

fun starts_with :: "string \<Rightarrow> string \<Rightarrow> bool" where
  "starts_with [] s = True"
| "starts_with (p # ps) [] = False"
| "starts_with (p # ps) (c # cs) = (p = c \<and> starts_with ps cs)"

text \<open>\<^verbatim>\<open>(?<=\bword)\<close>: the text read so far ends with \<open>word\<close>, and
  \<open>word\<close> starts at a word boundary.\<close>

definition lookbehind :: "string \<Rightarrow> string \<Rightarrow> bool" where
  "lookbehind word seen =
     (starts_with (rev word) seen \<and> boundary (drop (length word) seen) word)"

definition keyword_start :: "string \<Rightarrow> string \<Rightarrow> bool" where
  "keyword_start seen rest =
     (boundary seen rest \<or> lookbehind ''in'' seen \<or> lookbehind ''from'' seen \<or>
      lookbehind ''to'' seen \<or> lookbehind ''of'' seen)"

text \<open>
  Matching a pattern at a position, as the backtracking engine does: \<^verbatim>\<open>\w*\<close> is
  greedy, it takes one more word character first and gives it back when the rest of
  the pattern fails.  The result is the position where the match ends.
\<close>

fun match_items :: "regex_item list \<Rightarrow> string \<Rightarrow> string \<Rightarrow> (string \<times> string) option" where
  "match_items [] seen rest = Some (seen, rest)"
| "match_items (Lit c # items) seen [] = None"
| "match_items (Lit c # items) seen (x # rest) =
     (if x = c then match_items items (x # seen) rest else None)"
| "match_items (Boundary # items) seen rest =
     (if boundary seen rest then match_items items seen rest else None)"
| "match_items (KeywordStart # items) seen rest =
     (if keyword_start seen rest then match_items items seen rest else None)"
| "match_items (WordStar # items) seen [] = match_items items seen []"
| "match_items (WordStar # items) seen (x # rest) =
     (if is_word_char x then
        (case match_items (WordStar # items) (x # seen) rest of
           Some r \<Rightarrow> Some r
         | None \<Rightarrow> match_items items seen (x # rest))
      else match_items items seen (x # rest))"

text \<open>\<^verbatim>\<open>re.search\<close>: the leftmost position where the pattern matches, as the pair
  \<open>(match.start(), match.end())\<close>.\<close>

fun search_from :: "regex_item list \<Rightarrow> string \<Rightarrow> string \<Rightarrow> (nat \<times> nat) option" where
  "search_from items seen [] =
     (case match_items items seen [] of
        Some (b, a) \<Rightarrow> Some (length seen, length b)
      | None \<Rightarrow> None)"
| "search_from items seen (x # rest) =
     (case match_items items seen (x # rest) of
        Some (b, a) \<Rightarrow> Some (length seen, length b)
      | None \<Rightarrow> search_from items (x # seen) rest)"

definition re_search :: "regex_item list \<Rightarrow> string \<Rightarrow> (nat \<times> nat) option" where
  "re_search items text = search_from items [] text"

text \<open>
  \<^verbatim>\<open>r'\b' + normalized_keyword.replace('*', r'\w*') + r'\b'\<close>.  The keyword is
  spliced into the pattern unescaped.  For a keyword whose characters other than
  \<^verbatim>\<open>*\<close> are not metacharacters of regular expressions (\<open>plain_keyword\<close>), the
  pattern is the literals of the keyword with \<^verbatim>\<open>\w*\<close> for each \<^verbatim>\<open>*\<close>.  For any
  other keyword the metacharacters keep their meaning and the pattern may not even
  compile; the outcome of the search is then left unspecified.
\<close>

definition plain_keyword :: "string \<Rightarrow> bool" where
  "plain_keyword keyword =
     list_all (\<lambda>c. c \<notin> set (CHR 0x5C # ''.^$+?{}[]|()'')) keyword"

definition wildcard_items :: "string \<Rightarrow> regex_item list" where
  "wildcard_items keyword = map (\<lambda>c. if c = CHR ''*'' then WordStar else Lit c) keyword"

definition wildcard_pattern :: "string \<Rightarrow> regex_item list" where
  "wildcard_pattern keyword = Boundary # wildcard_items keyword @ [Boundary]"

definition wildcard_search :: "string \<Rightarrow> string \<Rightarrow> (nat \<times> nat) option" where
  "wildcard_search keyword text =
     (if plain_keyword keyword then re_search (wildcard_pattern keyword) text
      else undefined keyword text)"

text \<open>\<^verbatim>\<open>re.escape\<close> makes every character of the keyword a literal.\<close>

definition exact_pattern :: "string \<Rightarrow> regex_item list" where
  "exact_pattern keyword = KeywordStart # map Lit keyword @ [Boundary]"

subsection \<open>The matcher\<close>

text \<open>
  The three keyword groups are Python sets, whose iteration order the code does not
  determine.  Each list below holds the keywords of a group in the order of the
  source and stands for the order of one run; which keywords are reported, and
  whether any is, does not depend on that order (\<open>find_keyword_matches_order\<close>).
\<close>

definition measure_keywords :: "string list" where
  "measure_keywords =
     [''antidumping'', ''anti-dumping'', ''countervailing duty'', ''CVD'',
      ''anti-subsidy'', ''safeguard'', ''regulation'', ''decision'', ''review'',
      ''sunset review'', ''circumvention'', ''antitrust'', ''sanctions'',
      ''trade defence'', ''trade defense'', ''dumping'', ''subsidy'']"

definition product_keywords :: "string list" where
  "product_keywords =
     [''phosphate'', ''phosphate rock'', ''phosphoric acid'', ''fertilizer'',
      ''fertiliser'', ''DAP'', ''MAP'', ''TSP'', ''SSP'', ''diammonium phosphate'',
      ''monoammonium phosphate'', ''triple superphosphate'', ''single superphosphate'',
      ''HS25'', ''HS31'', ''3103'', ''3105'', ''mineral fertilizer'', ''chemical fertilizer'']"

definition place_company_keywords :: "string list" where
  "place_company_keywords =
     [''Morocco'', ''OCP'', ''Mosaic'', ''Nutrien'', ''Yara'', ''ICL'', ''Maaden'',
      ''Eurochem'', ''Phosagro'', ''CF Industries'', ''CFIndustries'',
      ''Jordan Phosphate'', ''JPMC'', ''Moroccan'', ''Israel Chemicals'',
      ''PhosAgro'', ''EuroChem'', ''Nutrien Ltd'', ''The Mosaic Company'']"

definition keyword_found :: "string \<Rightarrow> string \<Rightarrow> bool" where
  "keyword_found normalized_text keyword =
     (let normalized_keyword = normalize_text keyword in
      if CHR ''*'' \<in> set normalized_keyword
      then wildcard_search normalized_keyword normalized_text \<noteq> None
      else re_search (exact_pattern normalized_keyword) normalized_text \<noteq> None)"

definition find_keyword_matches :: "string \<Rightarrow> string list \<Rightarrow> string list" where
  "find_keyword_matches text keywords =
     (if text = [] then [] else filter (keyword_found (normalize_text text)) keywords)"

text \<open>One snippet of \<^verbatim>\<open>_extract_matching_snippets\<close>: the position is searched in the
  normalised text, the slice is taken from the text as given.\<close>

definition snippet_of :: "string \<Rightarrow> string \<Rightarrow> string list" where
  "snippet_of text keyword =
     (let normalized_text = normalize_text text;
          normalized_keyword = normalize_text keyword;
          found = (if CHR ''*'' \<in> set normalized_keyword
                   then wildcard_search normalized_keyword normalized_text
                   else re_search (map Lit normalized_keyword) normalized_text)
      in case found of
           None \<Rightarrow> []
         | Some (match_start, match_end) \<Rightarrow>
             (let start = match_start - 50;
                  end_pos = min (length text) (match_end + 50);
                  snippet = strip (take (end_pos - start) (drop start text))
              in if snippet \<noteq> [] then [''...'' @ snippet @ ''...''] else []))"

definition extract_matching_snippets :: "string \<Rightarrow> string list \<Rightarrow> string list" where
  "extract_matching_snippets text matched_keywords =
     (if text = [] \<or> matched_keywords = [] then []
      else concat (map (snippet_of text) matched_keywords))"

text \<open>\<^verbatim>\<open>" ".join(values)\<close> raises \<^verbatim>\<open>TypeError\<close> on an item that is not a string.\<close>

fun join_space :: "pyval list \<Rightarrow> error + string" where
  "join_space [] = Inr []"
| "join_space [PStr s] = Inr s"
| "join_space (PStr s # rest) =
     (case join_space rest of Inl e \<Rightarrow> Inl e | Inr t \<Rightarrow> Inr (s @ '' '' @ t))"
| "join_space (v # rest) = Inl TypeError"

definition searchable_text :: "document \<Rightarrow> error + string" where
  "searchable_text document =
     join_space [doc_get_default document ''TI'' (PStr []),
                 doc_get_default document ''TX'' (PStr []),
                 doc_get_default document ''SU'' (PStr []),
                 doc_get_default document ''AU'' (PStr []),
                 doc_get_default document ''TE'' (PStr [])]"

definition is_match :: "document \<Rightarrow> error + (bool \<times> match_detail)" where
  "is_match document =
     (case searchable_text document of
        Inl e \<Rightarrow> Inl e
      | Inr text \<Rightarrow>
          (let measure_matches = find_keyword_matches text measure_keywords;
               product_matches = find_keyword_matches text product_keywords;
               place_company_matches = find_keyword_matches text place_company_keywords;
               matched = (place_company_matches \<noteq> [] \<and>
                          (measure_matches \<noteq> [] \<or> product_matches \<noteq> []));
               groups_with_matches =
                 (if measure_matches \<noteq> [] then 1 else 0) +
                 (if product_matches \<noteq> [] then 1 else 0) +
                 (if place_company_matches \<noteq> [] then 1 else (0::nat));
               all_matched_keywords = measure_matches @ product_matches @ place_company_matches;
               matched_text_snippets = extract_matching_snippets text all_matched_keywords
           in Inr (matched,
                   \<lparr>md_measure_keywords = measure_matches,
                    md_product_keywords = product_matches,
                    md_place_company_keywords = place_company_matches,
                    md_groups_matched = groups_with_matches,
                    md_total_groups = 3,
                    md_matched_text_snippets = take 3 matched_text_snippets,
                    md_match_score = length all_matched_keywords\<rparr>)))"

text \<open>\<^verbatim>\<open>filter_documents\<close>: a matching document gets its match details and keeps the
  \<^verbatim>\<open>scraped_at\<close> it has (\<^verbatim>\<open>None\<close> when it has none).\<close>

fun filter_documents :: "document list \<Rightarrow> error + document list" where
  "filter_documents [] = Inr []"
| "filter_documents (doc # documents) =
     (case is_match doc of
        Inl e \<Rightarrow> Inl e
      | Inr (matched, match_details) \<Rightarrow>
          (case filter_documents documents of
             Inl e \<Rightarrow> Inl e
           | Inr matched_documents \<Rightarrow>
               Inr (if matched
                    then doc_set (doc_set doc ''match_details'' (PDetails match_details))
                           ''scraped_at'' (doc_get_default doc ''scraped_at'' PNone)
                         # matched_documents
                    else matched_documents)))"

text \<open>The substring test \<^verbatim>\<open>a in b\<close> on strings.\<close>

fun is_substring :: "string \<Rightarrow> string \<Rightarrow> bool" where
  "is_substring p [] = (p = [])"
| "is_substring p (c # cs) = (starts_with p (c # cs) \<or> is_substring p cs)"

text \<open>\<^verbatim>\<open>extract_entities\<close>; \<^verbatim>\<open>list(set(...))\<close> leaves the order of each result
  unspecified, the keywords of a group being distinct.\<close>

definition extract_entities :: "document \<Rightarrow> error + (string list \<times> string list)" where
  "extract_entities document =
     (case join_space [doc_get_default document ''TI'' (PStr []),
                       doc_get_default document ''TX'' (PStr []),
                       doc_get_default document ''SU'' (PStr [])] of
        Inl e \<Rightarrow> Inl e
      | Inr text \<Rightarrow>
          Inr (filter (\<lambda>keyword. keyword \<notin> set [''Morocco'', ''Moroccan''] \<and>
                         is_substring (normalize_text keyword) (normalize_text text))
                 place_company_keywords,
               filter (\<lambda>keyword. is_substring (normalize_text keyword) (normalize_text text))
                 product_keywords))"

section \<open>Deduplication (scraper.py)\<close>

text \<open>
  The set comprehension \<^verbatim>\<open>{doc.get(k) for doc in docs if doc.get(k)}\<close>: every truthy
  value is hashed on insertion.
\<close>

fun collect_keys :: "string \<Rightarrow> document list \<Rightarrow> error + pyval set" where
  "collect_keys k [] = Inr {}"
| "collect_keys k (doc # docs) =
     (let v = doc_get doc k in
      if truthy v \<and> \<not> hashable v then Inl TypeError
      else (case collect_keys k docs of
              Inl e \<Rightarrow> Inl e
            | Inr S \<Rightarrow> Inr (if truthy v then insert v S else S)))"

text \<open>
  One iteration of the loop of \<^verbatim>\<open>_deduplicate_documents\<close> over the state
  \<open>(existing_dns, existing_titles, unique_new)\<close>.  The two duplicate counters are
  only logged and are left out.  The tests \<^verbatim>\<open>in\<close> and the calls of \<^verbatim>\<open>add\<close> hash
  their argument.
\<close>

definition dedup_step ::
  "pyval set \<times> pyval set \<times> document list \<Rightarrow> document \<Rightarrow>
   error + (pyval set \<times> pyval set \<times> document list)" where
  "dedup_step st doc =
     (case st of (existing_dns, existing_titles, unique_new) \<Rightarrow>
      let doc_number = doc_get doc ''DN''; title = doc_get doc ''TI'' in
      if truthy doc_number \<and> \<not> hashable doc_number then Inl TypeError
      else if truthy doc_number \<and> doc_number \<in> existing_dns then Inr st
      else if \<not> truthy doc_number \<and> truthy title \<and> \<not> hashable title then Inl TypeError
      else if \<not> truthy doc_number \<and> truthy title \<and> title \<in> existing_titles then Inr st
      else if truthy title \<and> \<not> hashable title then Inl TypeError
      else Inr (if truthy doc_number then insert doc_number existing_dns else existing_dns,
                if truthy title then insert title existing_titles else existing_titles,
                unique_new @ [doc]))"

fun dedup_loop ::
  "pyval set \<times> pyval set \<times> document list \<Rightarrow> document list \<Rightarrow>
   error + (pyval set \<times> pyval set \<times> document list)" where
  "dedup_loop st [] = Inr st"
| "dedup_loop st (doc # rest) =
     (case dedup_step st doc of Inl e \<Rightarrow> Inl e | Inr st' \<Rightarrow> dedup_loop st' rest)"

definition deduplicate_documents :: "document list \<Rightarrow> document list \<Rightarrow> error + document list" where
  "deduplicate_documents existing new =
     (case collect_keys ''DN'' existing of
        Inl e \<Rightarrow> Inl e
      | Inr existing_dns \<Rightarrow>
          (case collect_keys ''TI'' existing of
             Inl e \<Rightarrow> Inl e
           | Inr existing_titles \<Rightarrow>
               (case dedup_loop (existing_dns, existing_titles, []) new of
                  Inl e \<Rightarrow> Inl e
                | Inr (dns, titles, unique_new) \<Rightarrow> Inr unique_new)))"

text \<open>
  One iteration of the loop of \<^verbatim>\<open>_clean_existing_duplicates\<close> over
  \<open>(seen_dns, seen_titles, cleaned)\<close>: the title is looked at only in the
  \<^verbatim>\<open>elif\<close> branch, that is for a document without a document number.
\<close>

definition clean_step ::
  "pyval set \<times> pyval set \<times> document list \<Rightarrow> document \<Rightarrow>
   error + (pyval set \<times> pyval set \<times> document list)" where
  "clean_step st doc =
     (case st of (seen_dns, seen_titles, cleaned) \<Rightarrow>
      let doc_number = doc_get doc ''DN''; title = doc_get doc ''TI'' in
      if truthy doc_number then
        (if \<not> hashable doc_number then Inl TypeError
         else if doc_number \<in> seen_dns then Inr st
         else Inr (insert doc_number seen_dns, seen_titles, cleaned @ [doc]))
      else if truthy title then
        (if \<not> hashable title then Inl TypeError
         else if title \<in> seen_titles then Inr st
         else Inr (seen_dns, insert title seen_titles, cleaned @ [doc]))
      else Inr (seen_dns, seen_titles, cleaned @ [doc]))"

fun clean_loop ::
  "pyval set \<times> pyval set \<times> document list \<Rightarrow> document list \<Rightarrow>
   error + (pyval set \<times> pyval set \<times> document list)" where
  "clean_loop st [] = Inr st"
| "clean_loop st (doc # rest) =
     (case clean_step st doc of Inl e \<Rightarrow> Inl e | Inr st' \<Rightarrow> clean_loop st' rest)"

definition clean_existing_duplicates :: "document list \<Rightarrow> error + document list" where
  "clean_existing_duplicates documents =
     (if documents = [] then Inr documents
      else (case clean_loop ({}, {}, []) documents of
              Inl e \<Rightarrow> Inl e
            | Inr (seen_dns, seen_titles, cleaned) \<Rightarrow> Inr cleaned))"

text \<open>
  The identifiers a list of documents contributes to the running sets, and the typing
  condition under which no set operation raises: a truthy document number or title is
  a string.
\<close>

definition key_set :: "string \<Rightarrow> document list \<Rightarrow> pyval set" where
  "key_set k docs = {v. truthy v \<and> v \<in> set (map (\<lambda>d. doc_get d k) docs)}"

definition keys_ok :: "document \<Rightarrow> bool" where
  "keys_ok doc =
     ((\<not> truthy (doc_get doc ''DN'') \<or> hashable (doc_get doc ''DN'')) \<and>
      (\<not> truthy (doc_get doc ''TI'') \<or> hashable (doc_get doc ''TI'')))"

definition keyless :: "document list \<Rightarrow> document list" where
  "keyless docs = filter (\<lambda>d. \<not> truthy (doc_get d ''DN'')) docs"

definition is_duplicate :: "document list \<Rightarrow> document \<Rightarrow> bool" where
  "is_duplicate known doc =
     (let doc_number = doc_get doc ''DN''; title = doc_get doc ''TI'' in
      (truthy doc_number \<and> doc_number \<in> key_set ''DN'' known) \<or>
      (\<not> truthy doc_number \<and> truthy title \<and> title \<in> key_set ''TI'' known))"

definition is_repeat :: "document list \<Rightarrow> document \<Rightarrow> bool" where
  "is_repeat earlier doc =
     (let doc_number = doc_get doc ''DN''; title = doc_get doc ''TI'' in
      (truthy doc_number \<and> doc_number \<in> key_set ''DN'' earlier) \<or>
      (\<not> truthy doc_number \<and> truthy title \<and> title \<in> key_set ''TI'' (keyless earlier)))"

section \<open>Enrichment (scraper.py)\<close>

text \<open>
  \<^verbatim>\<open>str(v)\<close> as an f-string renders a value.  Only the rendering of a string is
  modelled; the renderings of \<^verbatim>\<open>None\<close>, of a list and of a dictionary are left
  unspecified.
\<close>

fun py_str :: "pyval \<Rightarrow> string" where
  "py_str (PStr s) = s"
| "py_str v = undefined"

text \<open>The assignments \<^verbatim>\<open>doc[new] = doc.get(raw, '')\<close>, in the order of the source.\<close>

definition normalized_fields :: "(string \<times> string) list" where
  "normalized_fields =
     [(''document_number'', ''DN''), (''title'', ''TI''), (''publication_date'', ''DD''),
      (''author'', ''AU''), (''form'', ''FM''), (''subject'', ''SU''), (''text'', ''TX''),
      (''text_excerpt'', ''TE''), (''official_journal'', ''OJ'')]"

fun copy_fields :: "(string \<times> string) list \<Rightarrow> document \<Rightarrow> document" where
  "copy_fields [] doc = doc"
| "copy_fields ((new, raw) # pairs) doc =
     copy_fields pairs (doc_set doc new (doc_get_default doc raw (PStr [])))"

text \<open>The body of the loop of \<^verbatim>\<open>_enrich_documents\<close>; \<open>timestamp\<close> is the value of
  \<^verbatim>\<open>datetime.now().isoformat()\<close> read for this document.\<close>

definition enrich_document :: "string \<Rightarrow> document \<Rightarrow> error + document" where
  "enrich_document timestamp doc0 =
     (let doc1 = doc_set doc0 ''scraped_at'' (PStr timestamp) in
      case extract_entities doc1 of
        Inl e \<Rightarrow> Inl e
      | Inr (companies, products) \<Rightarrow>
          (let doc2 = doc_set doc1 ''companies'' (PStrs companies);
               doc3 = doc_set doc2 ''products'' (PStrs products);
               doc4 = copy_fields normalized_fields doc3
           in Inr (if truthy (doc_get doc4 ''DN'')
                   then doc_set doc4 ''eurlex_url''
                          (PStr (''https://eur-lex.europa.eu/legal-content/EN/TXT/?uri=CELEX:'' @
                                 py_str (doc_get doc4 ''DN'')))
                   else doc4)))"

text \<open>The loop: the clock is read once per document, \<open>clock n\<close> being the text of its
  \<open>n\<close>-th reading.\<close>

fun enrich_documents :: "(nat \<Rightarrow> string) \<Rightarrow> nat \<Rightarrow> document list \<Rightarrow> error + document list" where
  "enrich_documents clock n [] = Inr []"
| "enrich_documents clock n (doc # documents) =
     (case enrich_document (clock n) doc of
        Inl e \<Rightarrow> Inl e
      | Inr enriched_doc \<Rightarrow>
          (case enrich_documents clock (Suc n) documents of
             Inl e \<Rightarrow> Inl e
           | Inr enriched \<Rightarrow> Inr (enriched_doc # enriched)))"

section \<open>Dates\<close>

datatype date = Date (year: nat) (month: nat) (day: nat)

definition is_leap :: "nat \<Rightarrow> bool" where
  "is_leap y = (y mod 4 = 0 \<and> (y mod 100 \<noteq> 0 \<or> y mod 400 = 0))"

definition days_in_month :: "nat \<Rightarrow> nat \<Rightarrow> nat" where
  "days_in_month y m =
     (if m = 2 then (if is_leap y then 29 else 28)
      else if m = 4 \<or> m = 6 \<or> m = 9 \<or> m = 11 then 30 else 31)"

text \<open>The dates \<^verbatim>\<open>datetime.date\<close> can hold: years 1 to 9999.\<close>

definition valid_date :: "date \<Rightarrow> bool" where
  "valid_date d =
     (1 \<le> year d \<and> year d \<le> 9999 \<and> 1 \<le> month d \<and> month d \<le> 12 \<and>
      1 \<le> day d \<and> day d \<le> days_in_month (year d) (month d))"

definition date_less :: "date \<Rightarrow> date \<Rightarrow> bool" where
  "date_less a b =
     (year a < year b \<or> (year a = year b \<and>
        (month a < month b \<or> (month a = month b \<and> day a < day b))))"

text \<open>\<^verbatim>\<open>d + timedelta(days=1)\<close>: past 9999-12-31 it raises \<^verbatim>\<open>OverflowError\<close>.\<close>

definition add_one_day :: "date \<Rightarrow> error + date" where
  "add_one_day d =
     (if day d < days_in_month (year d) (month d) then Inr (Date (year d) (month d) (day d + 1))
      else if month d < 12 then Inr (Date (year d) (month d + 1) 1)
      else if year d < 9999 then Inr (Date (year d + 1) 1 1)
      else Inl OverflowError)"

definition digit_value :: "char \<Rightarrow> nat" where
  "digit_value c = of_char c - 48"

definition digit_char :: "nat \<Rightarrow> char" where
  "digit_char n = char_of (48 + n)"

definition one_to_nine :: "char \<Rightarrow> bool" where
  "one_to_nine c = (CHR ''1'' \<le> c \<and> c \<le> CHR ''9'')"

text \<open>
  \<^verbatim>\<open>datetime.strptime(s, "%Y-%m-%d").date()\<close>.  The library matches the text against
  \<^verbatim>\<open>(\d\d\d\d)-(1[0-2]|0[1-9]|[1-9])-(3[01]|[12]\d|0[1-9]|[1-9]| [1-9])\<close>, asks the
  match to cover the whole text, and builds the date, which checks the year and the
  day of the month.  Each failure is a \<^verbatim>\<open>ValueError\<close>, here \<open>None\<close>.
\<close>

fun parse_year :: "string \<Rightarrow> (nat \<times> string) option" where
  "parse_year (a # b # c # d # rest) =
     (if is_digit a \<and> is_digit b \<and> is_digit c \<and> is_digit d
      then Some (1000 * digit_value a + 100 * digit_value b + 10 * digit_value c + digit_value d,
                 rest)
      else None)"
| "parse_year s = None"

fun parse_month :: "string \<Rightarrow> nat option" where
  "parse_month [a] = (if one_to_nine a then Some (digit_value a) else None)"
| "parse_month [a, b] =
     (if a = CHR ''1'' \<and> CHR ''0'' \<le> b \<and> b \<le> CHR ''2'' then Some (10 + digit_value b)
      else if a = CHR ''0'' \<and> one_to_nine b then Some (digit_value b)
      else None)"
| "parse_month s = None"

fun parse_day :: "string \<Rightarrow> nat option" where
  "parse_day [a] = (if one_to_nine a then Some (digit_value a) else None)"
| "parse_day [a, b] =
     (if a = CHR ''3'' \<and> CHR ''0'' \<le> b \<and> b \<le> CHR ''1'' then Some (30 + digit_value b)
      else if CHR ''1'' \<le> a \<and> a \<le> CHR ''2'' \<and> is_digit b
           then Some (10 * digit_value a + digit_value b)
      else if a = CHR ''0'' \<and> one_to_nine b then Some (digit_value b)
      else if a = CHR '' '' \<and> one_to_nine b then Some (digit_value b)
      else None)"
| "parse_day s = None"

definition strptime :: "string \<Rightarrow> date option" where
  "strptime s =
     (case parse_year s of
        None \<Rightarrow> None
      | Some (y, rest1) \<Rightarrow>
          (case rest1 of
             [] \<Rightarrow> None
           | c1 # rest2 \<Rightarrow>
               if c1 \<noteq> CHR ''-'' then None
               else (case dropWhile (\<lambda>c. c \<noteq> CHR ''-'') rest2 of
                       [] \<Rightarrow> None
                     | c2 # rest3 \<Rightarrow>
                         (case (parse_month (takeWhile (\<lambda>c. c \<noteq> CHR ''-'') rest2),
                                parse_day rest3) of
                            (Some m, Some d) \<Rightarrow>
                              if valid_date (Date y m d) then Some (Date y m d) else None
                          | _ \<Rightarrow> None))))"

text \<open>\<^verbatim>\<open>date.isoformat()\<close>, which is also what \<^verbatim>\<open>strftime('%Y-%m-%d')\<close> gives for a
  year of four digits.\<close>

definition two_digits :: "nat \<Rightarrow> string" where
  "two_digits n = [digit_char (n div 10 mod 10), digit_char (n mod 10)]"

definition isoformat :: "date \<Rightarrow> string" where
  "isoformat d =
     two_digits (year d div 100) @ two_digits (year d) @ ''-'' @ two_digits (month d) @
     ''-'' @ two_digits (day d)"

section \<open>The stores, the clock and the gateway\<close>

text \<open>
  A file of the data directory is missing, present but unreadable (the read or the
  JSON parse raises), or holds a value.  The state file holds the dictionary
  \<^verbatim>\<open>_save_state\<close> writes.  How a write of each file ends is given by the world: it
  succeeds, or \<^verbatim>\<open>open(path, 'w')\<close> raises and the file stays as it was, or
  \<^verbatim>\<open>json.dump\<close> raises after the file was opened, which has emptied it, and leaves
  a file that no longer parses.  The day does not change during a run; the clock
  gives a new text at each reading.  The gateway is the call
  \<^verbatim>\<open>web_client.search_trade_regulations\<close>, kept as a function of the window that
  returns the raw documents or raises; \<open>requests\<close> records the calls made.
\<close>

datatype 'a stored = Missing | Unreadable | Stored 'a

datatype write_outcome = Write_succeeds | Open_fails | Dump_fails

definition write_file :: "write_outcome \<Rightarrow> 'a stored \<Rightarrow> 'a \<Rightarrow> 'a stored" where
  "write_file outcome old v =
     (case outcome of Write_succeeds \<Rightarrow> Stored v | Open_fails \<Rightarrow> old | Dump_fails \<Rightarrow> Unreadable)"

record crawl_state =
  last_checked_date :: "string option"
  last_run :: "string option"
  total_documents :: nat

record world =
  results_file :: "document list stored"
  state_file :: "crawl_state stored"
  results_write :: write_outcome
  state_write :: write_outcome
  today :: date
  clock :: "nat \<Rightarrow> string"
  ticks :: nat
  gateway :: "date \<Rightarrow> date \<Rightarrow> error + document list"
  requests :: "(date \<times> date) list"

text \<open>\<^verbatim>\<open>_load_results\<close> and \<^verbatim>\<open>_load_state\<close> catch every exception and answer with
  an empty list and an empty dictionary (here \<open>None\<close>).\<close>

definition load_results :: "world \<Rightarrow> document list" where
  "load_results w = (case results_file w of Stored results \<Rightarrow> results | _ \<Rightarrow> [])"

definition load_state :: "world \<Rightarrow> crawl_state option" where
  "load_state w = (case state_file w of Stored state \<Rightarrow> Some state | _ \<Rightarrow> None)"

text \<open>\<^verbatim>\<open>_save_results\<close> and \<^verbatim>\<open>_save_state\<close> catch every exception and log it.\<close>

definition save_results :: "world \<Rightarrow> document list \<Rightarrow> world" where
  "save_results w results =
     w\<lparr>results_file := write_file (results_write w) (results_file w) results\<rparr>"

definition save_state :: "world \<Rightarrow> crawl_state \<Rightarrow> world" where
  "save_state w state = w\<lparr>state_file := write_file (state_write w) (state_file w) state\<rparr>"

text \<open>\<^verbatim>\<open>datetime.now().isoformat()\<close>.\<close>

definition now_iso :: "world \<Rightarrow> string \<times> world" where
  "now_iso w = (clock w (ticks w), w\<lparr>ticks := Suc (ticks w)\<rparr>)"

section \<open>Date-window planning and the run (scraper.py)\<close>

definition epoch_start_date :: date where
  "epoch_start_date = Date 2024 1 1"

text \<open>\<^verbatim>\<open>state.get("last_checked_date")\<close>: absent in the empty dictionary.\<close>

definition watermark :: "world \<Rightarrow> string option" where
  "watermark w = (case load_state w of None \<Rightarrow> None | Some state \<Rightarrow> last_checked_date state)"

definition get_date_range :: "world \<Rightarrow> error + (date \<times> date)" where
  "get_date_range w =
     (case watermark w of
        None \<Rightarrow> Inr (epoch_start_date, today w)
      | Some text \<Rightarrow>
          if text = [] then Inr (epoch_start_date, today w)
          else (case strptime text of
                  None \<Rightarrow> Inr (epoch_start_date, today w)
                | Some last_date \<Rightarrow>
                    (case add_one_day last_date of
                       Inl e \<Rightarrow> Inl e
                     | Inr from_date \<Rightarrow> Inr (from_date, today w))))"

definition plan_window :: "bool \<Rightarrow> bool \<Rightarrow> world \<Rightarrow> error + (date \<times> date)" where
  "plan_window force_full_2024 force_current_year w =
     (if force_current_year then Inr (Date (year (today w)) 1 1, today w)
      else if force_full_2024 then Inr (epoch_start_date, today w)
      else get_date_range w)"

text \<open>
  \<^verbatim>\<open>all_results.sort(key=lambda x: x.get('publication_date', ''), reverse=True)\<close>.
  A reversed sort keeps the order of documents with equal keys.  Strings compare with
  strings and lists with lists; any other comparison raises \<^verbatim>\<open>TypeError\<close>, and a
  list of at most one document is compared with nothing.
\<close>

definition publication_key :: "document \<Rightarrow> pyval" where
  "publication_key doc = doc_get_default doc ''publication_date'' (PStr [])"

fun str_of :: "pyval \<Rightarrow> string" where
  "str_of (PStr s) = s"
| "str_of v = []"

fun strs_of :: "pyval \<Rightarrow> string list" where
  "strs_of (PStrs l) = l"
| "strs_of v = []"

fun is_str :: "pyval \<Rightarrow> bool" where
  "is_str (PStr s) = True"
| "is_str v = False"

fun is_strs :: "pyval \<Rightarrow> bool" where
  "is_strs (PStrs l) = True"
| "is_strs v = False"

definition sort_newest_first :: "document list \<Rightarrow> error + document list" where
  "sort_newest_first docs =
     (if length docs \<le> 1 then Inr docs
      else if list_all (\<lambda>d. is_str (publication_key d)) docs
        then Inr (rev (sort_key (\<lambda>d. str_of (publication_key d)) (rev docs)))
      else if list_all (\<lambda>d. is_strs (publication_key d)) docs
        then Inr (rev (sort_key (\<lambda>d. strs_of (publication_key d)) (rev docs)))
      else Inl TypeError)"

text \<open>
  The dictionary \<^verbatim>\<open>scrape\<close> returns, by its status.  \<open>Up_to_date\<close> carries
  \<open>from_date\<close>, \<open>to_date\<close> (also its \<open>last_checked_date\<close>), \<open>new_documents\<close> and
  \<open>total_documents\<close>; \<open>Success\<close> adds \<open>raw_documents_fetched\<close> and
  \<open>matched_documents\<close>; \<open>Failed\<close> carries the exception.  Messages and durations are
  left out.
\<close>

datatype scrape_result =
    Up_to_date string string nat nat
  | Success string string nat nat nat nat
  | Failed error

text \<open>The steps of the run after the window is planned, from the gateway call to the
  deduplication: none of them writes a file.\<close>

definition fetch_and_merge ::
  "world \<Rightarrow> date \<Rightarrow> date \<Rightarrow> error + (nat \<times> nat \<times> document list \<times> document list)" where
  "fetch_and_merge w from_date to_date =
     (case gateway w from_date to_date of
        Inl e \<Rightarrow> Inl e
      | Inr raw_documents \<Rightarrow>
          (case filter_documents raw_documents of
             Inl e \<Rightarrow> Inl e
           | Inr matched_documents \<Rightarrow>
               (case enrich_documents (clock w) (ticks w) matched_documents of
                  Inl e \<Rightarrow> Inl e
                | Inr enriched_documents \<Rightarrow>
                    (case clean_existing_duplicates (load_results w) of
                       Inl e \<Rightarrow> Inl e
                     | Inr existing_results \<Rightarrow>
                         (case deduplicate_documents existing_results enriched_documents of
                            Inl e \<Rightarrow> Inl e
                          | Inr unique_new \<Rightarrow>
                              Inr (length raw_documents, length matched_documents,
                                   existing_results, unique_new))))))"

text \<open>
  \<^verbatim>\<open>scrape\<close>.  The clock is read at the start, once per enriched document, for
  \<open>last_run\<close> and for the duration.  An exception anywhere in the \<^verbatim>\<open>try\<close> block
  ends the run with status \<open>error\<close>.
\<close>

definition scrape :: "bool \<Rightarrow> bool \<Rightarrow> world \<Rightarrow> scrape_result \<times> world" where
  "scrape force_full_2024 force_current_year w0 =
     (let w1 = snd (now_iso w0) in
      case plan_window force_full_2024 force_current_year w1 of
        Inl e \<Rightarrow> (Failed e, snd (now_iso w1))
      | Inr (from_date, to_date) \<Rightarrow>
          if date_less to_date from_date then
            (let existing_results = load_results w1;
                 (timestamp, w2) = now_iso w1;
                 w3 = save_state w2
                        \<lparr>last_checked_date = Some (isoformat to_date),
                         last_run = Some timestamp,
                         total_documents = length existing_results\<rparr>
             in (Up_to_date (isoformat from_date) (isoformat to_date) 0 (length existing_results),
                 w3))
          else
            (let w2 = w1\<lparr>requests := requests w1 @ [(from_date, to_date)]\<rparr> in
             case fetch_and_merge w1 from_date to_date of
               Inl e \<Rightarrow> (Failed e, snd (now_iso w2))
             | Inr (raw_count, matched_count, existing_results, unique_new) \<Rightarrow>
                 (let w3 = w2\<lparr>ticks := ticks w2 + matched_count\<rparr> in
                  case (if unique_new \<noteq> []
                        then (case sort_newest_first (existing_results @ unique_new) of
                                Inl e \<Rightarrow> Inl e
                              | Inr all_results \<Rightarrow> Inr (all_results, save_results w3 all_results))
                        else Inr (existing_results, w3)) of
                    Inl e \<Rightarrow> (Failed e, snd (now_iso w3))
                  | Inr (all_results, w4) \<Rightarrow>
                      (let (timestamp, w5) = now_iso w4;
                           w6 = save_state w5
                                  \<lparr>last_checked_date = Some (isoformat to_date),
                                   last_run = Some timestamp,
                                   total_documents = length all_results\<rparr>
                       in (Success (isoformat from_date) (isoformat to_date)
                             (length unique_new) (length all_results) raw_count matched_count,
                           snd (now_iso w6))))))"

section \<open>Ordered corpora and sample worlds\<close>

text \<open>A corpus is newest first when its publication dates, as strings, never increase.\<close>

definition newest_first :: "document list \<Rightarrow> bool" where
  "newest_first docs = sorted (rev (map (\<lambda>d. str_of (publication_key d)) docs))"

text \<open>A world of 10 June 2024 in which every write succeeds, given the two files and
  the answer of the gateway.\<close>

definition sample_world ::
  "crawl_state stored \<Rightarrow> document list stored \<Rightarrow> (error + document list) \<Rightarrow> world" where
  "sample_world state results answer =
     \<lparr>results_file = results, state_file = state, results_write = Write_succeeds,
      state_write = Write_succeeds, today = Date 2024 6 10,
      clock = (\<lambda>n. ''2024-06-10T12:00:0'' @ [digit_char n]), ticks = 0,
      gateway = (\<lambda>date_from date_to. answer), requests = []\<rparr>"

definition state_checked :: "string \<Rightarrow> crawl_state" where
  "state_checked day_text =
     \<lparr>last_checked_date = Some day_text, last_run = None, total_documents = 0\<rparr>"

text \<open>A raw document as the gateway returns it, a stored document, and the raw
  document after matching and after enrichment at the second reading of the clock.\<close>

definition sample_raw_document :: document where
  "sample_raw_document =
     [(''TI'', PStr ''Phosphate regulation Morocco''), (''DN'', PStr ''32024R0001''),
      (''DD'', PStr ''2024-06-05'')]"

definition sample_stored_document :: "string \<Rightarrow> string \<Rightarrow> document" where
  "sample_stored_document number day_text =
     [(''DN'', PStr number), (''document_number'', PStr number),
      (''publication_date'', PStr day_text)]"

definition sample_matched_document :: document where
  "sample_matched_document =
     [(''TI'', PStr ''Phosphate regulation Morocco''), (''DN'', PStr ''32024R0001''),
      (''DD'', PStr ''2024-06-05''),
      (''match_details'',
       PDetails
         \<lparr>md_measure_keywords = [''regulation''], md_product_keywords = [''phosphate''],
          md_place_company_keywords = [''Morocco''], md_groups_matched = 3,
          md_total_groups = 3,
          md_matched_text_snippets =
            [''...Phosphate regulation Morocco...'', ''...Phosphate regulation Morocco...'',
             ''...Phosphate regulation Morocco...''],
          md_match_score = 3\<rparr>),
      (''scraped_at'', PNone)]"

definition sample_enriched_document :: document where
  "sample_enriched_document =
     [(''TI'', PStr ''Phosphate regulation Morocco''), (''DN'', PStr ''32024R0001''),
      (''DD'', PStr ''2024-06-05''),
      (''match_details'',
       PDetails
         \<lparr>md_measure_keywords = [''regulation''], md_product_keywords = [''phosphate''],
          md_place_company_keywords = [''Morocco''], md_groups_matched = 3,
          md_total_groups = 3,
          md_matched_text_snippets =
            [''...Phosphate regulation Morocco...'', ''...Phosphate regulation Morocco...'',
             ''...Phosphate regulation Morocco...''],
          md_match_score = 3\<rparr>),
      (''scraped_at'', PStr ''2024-06-10T12:00:01''), (''companies'', PStrs []),
      (''products'', PStrs [''phosphate'']), (''document_number'', PStr ''32024R0001''),
      (''title'', PStr ''Phosphate regulation Morocco''),
      (''publication_date'', PStr ''2024-06-05''), (''author'', PStr []), (''form'', PStr []),
      (''subject'', PStr []), (''text'', PStr []), (''text_excerpt'', PStr []),
      (''official_journal'', PStr []),
      (''eurlex_url'',
       PStr ''https://eur-lex.europa.eu/legal-content/EN/TXT/?uri=CELEX:32024R0001'')]"

section \<open>Occurrences of a keyword\<close>



section \<open>Well-formed records\<close>

text \<open>The five fields \<^verbatim>\<open>is_match\<close> reads; a record is well formed for it when each
  of them is absent or a string.\<close>

definition text_fields :: "string list" where
  "text_fields = [''TI'', ''TX'', ''SU'', ''AU'', ''TE'']"

definition text_fields_ok :: "document \<Rightarrow> bool" where
  "text_fields_ok document =
     list_all (\<lambda>k. case map_of document k of None \<Rightarrow> True | Some v \<Rightarrow> is_str v) text_fields"

section \<open>Properties\<close>

subsection \<open>Running sets of the two deduplication loops\<close>

lemma collect_keys_ok:
  "list_all keys_ok docs \<Longrightarrow> k = ''DN'' \<or> k = ''TI'' \<Longrightarrow> collect_keys k docs = Inr (key_set k docs)"
  by (induction docs) (auto simp: key_set_def keys_ok_def Let_def)

lemma key_set_Nil: "key_set k [] = {}"
  by (simp add: key_set_def)

lemma key_set_snoc:
  "key_set k (docs @ [d]) =
     (if truthy (doc_get d k) then insert (doc_get d k) (key_set k docs) else key_set k docs)"
  by (auto simp: key_set_def)

lemma key_set_append: "key_set k (xs @ ys) = key_set k xs \<union> key_set k ys"
  by (auto simp: key_set_def)

lemma keyless_snoc:
  "keyless (docs @ [d]) = (if truthy (doc_get d ''DN'') then keyless docs else keyless docs @ [d])"
  by (simp add: keyless_def)

lemma dedup_loop_snoc:
  "dedup_loop st (xs @ [c]) =
     (case dedup_loop st xs of Inl e \<Rightarrow> Inl e | Inr st' \<Rightarrow> dedup_step st' c)"
  by (induction xs arbitrary: st) (auto split: sum.splits)

lemma clean_loop_snoc:
  "clean_loop st (xs @ [c]) =
     (case clean_loop st xs of Inl e \<Rightarrow> Inl e | Inr st' \<Rightarrow> clean_step st' c)"
  by (induction xs arbitrary: st) (auto split: sum.splits)

lemma dedup_step_known:
  assumes "keys_ok c"
  shows "dedup_step (key_set ''DN'' (ex @ acc), key_set ''TI'' (ex @ acc), acc) c =
         Inr (if is_duplicate (ex @ acc) c
              then (key_set ''DN'' (ex @ acc), key_set ''TI'' (ex @ acc), acc)
              else (key_set ''DN'' (ex @ acc @ [c]), key_set ''TI'' (ex @ acc @ [c]), acc @ [c]))"
proof -
  have snoc: "key_set k (ex @ acc @ [c]) =
      (if truthy (doc_get c k) then insert (doc_get c k) (key_set k (ex @ acc))
       else key_set k (ex @ acc))" for k
    using key_set_snoc [of k "ex @ acc" c] by simp
  show ?thesis
    using assms by (auto simp: dedup_step_def is_duplicate_def keys_ok_def Let_def snoc)
qed

lemma dedup_loop_known:
  assumes "list_all keys_ok new"
  shows "\<exists>acc. dedup_loop (key_set ''DN'' ex, key_set ''TI'' ex, []) new =
           Inr (key_set ''DN'' (ex @ acc), key_set ''TI'' (ex @ acc), acc)"
  using assms
proof (induction new rule: rev_induct)
  case Nil
  then show ?case by simp
next
  case (snoc c new)
  then obtain acc where acc:
    "dedup_loop (key_set ''DN'' ex, key_set ''TI'' ex, []) new =
       Inr (key_set ''DN'' (ex @ acc), key_set ''TI'' (ex @ acc), acc)"
    by auto
  from snoc.prems have c: "keys_ok c" by simp
  show ?case
  proof (cases "is_duplicate (ex @ acc) c")
    case True
    then show ?thesis
      using acc dedup_step_known [OF c, of ex acc] by (auto simp: dedup_loop_snoc)
  next
    case False
    then have "dedup_loop (key_set ''DN'' ex, key_set ''TI'' ex, []) (new @ [c]) =
        Inr (key_set ''DN'' (ex @ (acc @ [c])), key_set ''TI'' (ex @ (acc @ [c])), acc @ [c])"
      using acc dedup_step_known [OF c, of ex acc] by (simp add: dedup_loop_snoc)
    then show ?thesis by blast
  qed
qed

lemma deduplicate_documents_snoc:
  assumes "list_all keys_ok existing" and "list_all keys_ok new" and "keys_ok doc"
  shows "\<exists>survivors.
           deduplicate_documents existing new = Inr survivors \<and>
           deduplicate_documents existing (new @ [doc]) =
             Inr (if is_duplicate (existing @ survivors) doc then survivors
                  else survivors @ [doc])"
proof -
  obtain acc where acc:
    "dedup_loop (key_set ''DN'' existing, key_set ''TI'' existing, []) new =
       Inr (key_set ''DN'' (existing @ acc), key_set ''TI'' (existing @ acc), acc)"
    using dedup_loop_known [OF assms(2)] by blast
  have "deduplicate_documents existing new = Inr acc"
    using acc assms(1) by (simp add: deduplicate_documents_def collect_keys_ok)
  moreover have "deduplicate_documents existing (new @ [doc]) =
      Inr (if is_duplicate (existing @ acc) doc then acc else acc @ [doc])"
    using acc assms(1) dedup_step_known [OF assms(3), of existing acc]
    by (simp add: deduplicate_documents_def collect_keys_ok dedup_loop_snoc)
  ultimately show ?thesis by blast
qed

lemma clean_step_known:
  assumes "keys_ok c"
  shows "clean_step (key_set ''DN'' docs, key_set ''TI'' (keyless docs), acc) c =
         Inr (key_set ''DN'' (docs @ [c]), key_set ''TI'' (keyless (docs @ [c])),
              if is_repeat docs c then acc else acc @ [c])"
  using assms
  by (auto simp: clean_step_def is_repeat_def keys_ok_def Let_def key_set_snoc keyless_snoc)

lemma clean_loop_known:
  assumes "list_all keys_ok docs"
  shows "\<exists>acc. clean_loop ({}, {}, []) docs =
           Inr (key_set ''DN'' docs, key_set ''TI'' (keyless docs), acc)"
  using assms
proof (induction docs rule: rev_induct)
  case Nil
  then show ?case by (simp add: key_set_Nil keyless_def)
next
  case (snoc c docs)
  then obtain acc where
    "clean_loop ({}, {}, []) docs = Inr (key_set ''DN'' docs, key_set ''TI'' (keyless docs), acc)"
    by auto
  moreover from snoc.prems have "keys_ok c" by simp
  ultimately show ?case
    by (simp add: clean_loop_snoc clean_step_known)
qed

lemma clean_existing_duplicates_snoc:
  assumes "list_all keys_ok docs" and "keys_ok doc"
  shows "\<exists>cleaned.
           clean_existing_duplicates docs = Inr cleaned \<and>
           clean_existing_duplicates (docs @ [doc]) =
             Inr (if is_repeat docs doc then cleaned else cleaned @ [doc])"
proof -
  obtain acc where acc:
    "clean_loop ({}, {}, []) docs = Inr (key_set ''DN'' docs, key_set ''TI'' (keyless docs), acc)"
    using clean_loop_known [OF assms(1)] by blast
  have "clean_existing_duplicates docs = Inr acc"
    using acc by (cases docs) (auto simp: clean_existing_duplicates_def)
  moreover have "clean_existing_duplicates (docs @ [doc]) =
      Inr (if is_repeat docs doc then acc else acc @ [doc])"
    using acc clean_step_known [OF assms(2), of docs acc]
    by (simp add: clean_existing_duplicates_def clean_loop_snoc)
  ultimately show ?thesis by blast
qed

subsection \<open>Merging new candidates into the corpus\<close>

lemmas dedup_eval = keys_ok_def doc_get_def doc_get_default_def is_duplicate_def is_repeat_def key_set_def keyless_def
  deduplicate_documents_def dedup_step_def clean_existing_duplicates_def clean_step_def Let_def

text \<open>
  Claim C3.  \<^verbatim>\<open>_deduplicate_documents\<close> goes through the new candidates in order.
  With \<open>survivors\<close> the candidates kept so far, the next candidate is dropped exactly
  when its non-empty document number is a document number of the existing corpus or
  of a survivor, or it has no document number and its non-empty title is a title of
  the existing corpus or of a survivor; otherwise it is kept, after the survivors.
  The running sets are thus the identifiers of the corpus and of the survivors, a
  duplicate inside the batch is dropped and its first occurrence stays.  Document
  numbers and titles are strings or absent (\<open>keys_ok\<close>).
\<close>

theorem deduplicate_documents_drops_duplicates:
  assumes "list_all keys_ok existing" and "list_all keys_ok new" and "keys_ok doc"
  shows "deduplicate_documents existing [] = Inr [] \<and>
         (\<exists>survivors.
            deduplicate_documents existing new = Inr survivors \<and>
            deduplicate_documents existing (new @ [doc]) =
              Inr (if is_duplicate (existing @ survivors) doc then survivors
                   else survivors @ [doc]))"
proof
  show "deduplicate_documents existing [] = Inr []"
    using assms(1) by (simp add: deduplicate_documents_def collect_keys_ok)
next
  show "\<exists>survivors.
          deduplicate_documents existing new = Inr survivors \<and>
          deduplicate_documents existing (new @ [doc]) =
            Inr (if is_duplicate (existing @ survivors) doc then survivors
                 else survivors @ [doc])"
    using assms by (rule deduplicate_documents_snoc)
qed

theorem deduplicate_documents_drops_duplicates_witness:
  "list_all keys_ok [[(''DN'', PStr ''32024R0001''), (''TI'', PStr ''Old'')]] \<and>
   list_all keys_ok [[(''DN'', PStr ''32024R0002''), (''TI'', PStr ''New'')]] \<and>
   keys_ok [(''TI'', PStr ''New'')] \<and>
   deduplicate_documents [[(''DN'', PStr ''32024R0001''), (''TI'', PStr ''Old'')]]
     ([[(''DN'', PStr ''32024R0002''), (''TI'', PStr ''New'')]] @ [[(''TI'', PStr ''New'')]]) =
     Inr [[(''DN'', PStr ''32024R0002''), (''TI'', PStr ''New'')]]"
  using deduplicate_documents_drops_duplicates
    [of "[[(''DN'', PStr ''32024R0001''), (''TI'', PStr ''Old'')]]"
        "[[(''DN'', PStr ''32024R0002''), (''TI'', PStr ''New'')]]"
        "[(''TI'', PStr ''New'')]"]
  by (simp add: dedup_eval)

subsection \<open>Cleaning a stored corpus\<close>

text \<open>
  Claim C10.  \<^verbatim>\<open>_clean_existing_duplicates\<close> drops a document exactly when an
  earlier document of the list has the same non-empty document number, or the
  document has no document number and an earlier document without a document number
  has the same non-empty title.  A document with a document number never puts its
  title into the set of seen titles: after a keyed document \<open>a\<close>, a document \<open>b\<close>
  without document number and with the title of \<open>a\<close> is kept, whereas
  \<^verbatim>\<open>_deduplicate_documents\<close> registers the title of the surviving \<open>a\<close> and drops \<open>b\<close>.
\<close>

theorem clean_existing_duplicates_first_occurrence:
  assumes "list_all keys_ok docs" and "keys_ok doc"
    and "keys_ok a" and "keys_ok b"
    and "truthy (doc_get a ''DN'')" and "\<not> truthy (doc_get b ''DN'')"
    and "truthy (doc_get b ''TI'')" and "doc_get a ''TI'' = doc_get b ''TI''"
  shows "clean_existing_duplicates [] = Inr [] \<and>
         (\<exists>cleaned.
            clean_existing_duplicates docs = Inr cleaned \<and>
            clean_existing_duplicates (docs @ [doc]) =
              Inr (if is_repeat docs doc then cleaned else cleaned @ [doc])) \<and>
         clean_existing_duplicates [a, b] = Inr [a, b] \<and>
         deduplicate_documents [] [a, b] = Inr [a]"
proof (intro conjI)
  show "clean_existing_duplicates [] = Inr []"
    by (simp add: clean_existing_duplicates_def)
  show "\<exists>cleaned.
          clean_existing_duplicates docs = Inr cleaned \<and>
          clean_existing_duplicates (docs @ [doc]) =
            Inr (if is_repeat docs doc then cleaned else cleaned @ [doc])"
    using assms(1,2) by (rule clean_existing_duplicates_snoc)
  show "clean_existing_duplicates [a, b] = Inr [a, b]"
    using assms(3-8)
    by (auto simp: clean_existing_duplicates_def clean_step_def keys_ok_def Let_def)
  show "deduplicate_documents [] [a, b] = Inr [a]"
    using assms(3-8)
    by (auto simp: deduplicate_documents_def dedup_step_def keys_ok_def Let_def)
qed

theorem clean_existing_duplicates_first_occurrence_witness:
  "clean_existing_duplicates
     ([[(''DN'', PStr ''32024R0001''), (''TI'', PStr ''Old'')], [(''TI'', PStr ''Note'')]] @
      [[(''TI'', PStr ''Note'')]]) =
     Inr [[(''DN'', PStr ''32024R0001''), (''TI'', PStr ''Old'')], [(''TI'', PStr ''Note'')]] \<and>
   clean_existing_duplicates
     [[(''DN'', PStr ''32024R0001''), (''TI'', PStr ''Old'')], [(''TI'', PStr ''Old'')]] =
     Inr [[(''DN'', PStr ''32024R0001''), (''TI'', PStr ''Old'')], [(''TI'', PStr ''Old'')]] \<and>
   deduplicate_documents []
     [[(''DN'', PStr ''32024R0001''), (''TI'', PStr ''Old'')], [(''TI'', PStr ''Old'')]] =
     Inr [[(''DN'', PStr ''32024R0001''), (''TI'', PStr ''Old'')]]"
  using clean_existing_duplicates_first_occurrence
    [of "[[(''DN'', PStr ''32024R0001''), (''TI'', PStr ''Old'')], [(''TI'', PStr ''Note'')]]"
        "[(''TI'', PStr ''Note'')]"
        "[(''DN'', PStr ''32024R0001''), (''TI'', PStr ''Old'')]"
        "[(''TI'', PStr ''Old'')]"]
  by (simp add: dedup_eval)

subsection \<open>Records as dictionaries\<close>

lemma map_of_doc_set: "map_of (doc_set doc k v) = (map_of doc)(k \<mapsto> v)"
  by (induction doc) (auto simp: fun_eq_iff)

lemma doc_get_default_doc_set:
  "doc_get_default (doc_set doc k v) k' dflt = (if k' = k then v else doc_get_default doc k' dflt)"
  by (simp add: doc_get_default_def map_of_doc_set)

lemma is_str_default:
  "(case map_of document k of None \<Rightarrow> True | Some v \<Rightarrow> is_str v) \<Longrightarrow>
   \<exists>s. doc_get_default document k (PStr []) = PStr s"
  by (cases "map_of document k"; cases "the (map_of document k)")
     (auto simp: doc_get_default_def)

lemma searchable_text_total:
  assumes "text_fields_ok document"
  shows "\<exists>text. searchable_text document = Inr text"
proof -
  have "\<exists>s. doc_get_default document k (PStr []) = PStr s" if "k \<in> set text_fields" for k
    using assms that by (intro is_str_default) (simp add: text_fields_ok_def list_all_iff)
  then obtain a b c d e where
    "doc_get_default document ''TI'' (PStr []) = PStr a"
    "doc_get_default document ''TX'' (PStr []) = PStr b"
    "doc_get_default document ''SU'' (PStr []) = PStr c"
    "doc_get_default document ''AU'' (PStr []) = PStr d"
    "doc_get_default document ''TE'' (PStr []) = PStr e"
    unfolding text_fields_def by fastforce
  then show ?thesis by (simp add: searchable_text_def)
qed

lemma searchable_text_missing:
  assumes "map_of document k = None"
  shows "searchable_text (doc_set document k (PStr [])) = searchable_text document"
proof -
  have "doc_get_default (doc_set document k (PStr [])) k' (PStr []) =
        doc_get_default document k' (PStr [])" for k'
    using assms by (simp add: doc_get_default_doc_set) (simp add: doc_get_default_def)
  then show ?thesis by (simp add: searchable_text_def)
qed

lemma doc_get_doc_set:
  "doc_get (doc_set doc k v) k' = (if k' = k then v else doc_get doc k')"
  by (simp add: doc_get_def doc_get_default_doc_set)

subsection \<open>What the keyword search reports\<close>
















subsection \<open>Character classes and normalisation\<close>










lemma normalize_text_sample: "normalize_text ''  In Morocco  '' = ''in morocco''"
  by code_simp

subsection \<open>The keywords reported\<close>






lemma phosphates_not_reported:
  "''phosphate'' \<notin> set (find_keyword_matches ''Morocco phosphates'' product_keywords)"
  by code_simp



lemma accented_letter_not_reported:
  "''Morocco'' \<notin> set (find_keyword_matches (''Morocco'' @ [CHR 0xE9]) place_company_keywords)"
  by code_simp

lemma find_keyword_matches_order:
  assumes "mset keywords = mset keywords'"
  shows "mset (find_keyword_matches text keywords) = mset (find_keyword_matches text keywords')"
    and "find_keyword_matches text keywords = [] \<longleftrightarrow> find_keyword_matches text keywords' = []"
proof -
  show m: "mset (find_keyword_matches text keywords) = mset (find_keyword_matches text keywords')"
    using assms by (simp add: find_keyword_matches_def)
  show "find_keyword_matches text keywords = [] \<longleftrightarrow> find_keyword_matches text keywords' = []"
    using m by (metis mset_zero_iff)
qed




subsection \<open>The decision rule of the matcher\<close>

lemma morocco_measure: "find_keyword_matches ''Morocco    '' measure_keywords = []"
  by code_simp
lemma morocco_product: "find_keyword_matches ''Morocco    '' product_keywords = []"
  by code_simp
lemma morocco_place: "find_keyword_matches ''Morocco    '' place_company_keywords = [''Morocco'']"
  by code_simp
lemma morocco_phosphate_measure: "find_keyword_matches ''Morocco phosphate   '' measure_keywords = []"
  by code_simp
lemma morocco_phosphate_product: "find_keyword_matches ''Morocco phosphate   '' product_keywords = [''phosphate'']"
  by code_simp
lemma morocco_phosphate_place: "find_keyword_matches ''Morocco phosphate   '' place_company_keywords = [''Morocco'']"
  by code_simp
lemma phosphate_regulation_place: "find_keyword_matches ''phosphate regulation    '' place_company_keywords = []"
  by code_simp

text \<open>
  Claim C1.  Whenever the searchable text of a record can be built, \<^verbatim>\<open>is_match\<close>
  returns, its three keyword lists are the matches of the three groups in that text,
  and it answers true exactly when the place/company list is not empty and the
  measure list or the product list is not empty.  In particular a record with a
  place/company match and no other match is rejected, and so is every record without
  a place/company match.
\<close>

theorem is_match_decision_rule:
  assumes "searchable_text document = Inr text"
  shows "\<exists>matched details.
           is_match document = Inr (matched, details) \<and>
           md_measure_keywords details = find_keyword_matches text measure_keywords \<and>
           md_product_keywords details = find_keyword_matches text product_keywords \<and>
           md_place_company_keywords details = find_keyword_matches text place_company_keywords \<and>
           (matched \<longleftrightarrow>
              md_place_company_keywords details \<noteq> [] \<and>
              (md_measure_keywords details \<noteq> [] \<or> md_product_keywords details \<noteq> [])) \<and>
           (md_place_company_keywords details \<noteq> [] \<and> md_measure_keywords details = [] \<and>
              md_product_keywords details = [] \<longrightarrow> \<not> matched) \<and>
           (md_place_company_keywords details = [] \<longrightarrow> \<not> matched)"
  using assms by (simp add: is_match_def Let_def)

theorem is_match_decision_rule_witness:
  "(\<exists>details. is_match [(''TI'', PStr ''Morocco'')] = Inr (False, details)) \<and>
   (\<exists>details. is_match [(''TI'', PStr ''Morocco''), (''TX'', PStr ''phosphate'')] = Inr (True, details)) \<and>
   (\<exists>details. is_match [(''TI'', PStr ''phosphate regulation'')] = Inr (False, details))"
  using is_match_decision_rule [of "[(''TI'', PStr ''Morocco'')]" "''Morocco    ''"]
    is_match_decision_rule [of "[(''TI'', PStr ''Morocco''), (''TX'', PStr ''phosphate'')]" "''Morocco phosphate   ''"]
    is_match_decision_rule [of "[(''TI'', PStr ''phosphate regulation'')]" "''phosphate regulation    ''"]
  by (auto simp: searchable_text_def doc_get_default_def morocco_measure morocco_product morocco_place morocco_phosphate_measure morocco_phosphate_product morocco_phosphate_place phosphate_regulation_place)

subsection \<open>Totality of the matcher\<close>

text \<open>
  Claim C8, as the code has it.  On every record whose title, text, subject, author
  and excerpt are each absent or a string, \<^verbatim>\<open>is_match\<close> returns a pair, and an
  absent field behaves as the empty string: storing the empty string under an absent
  key changes nothing.  A field that is present and not a string does not behave as
  the empty string: \<^verbatim>\<open>" ".join\<close> raises \<^verbatim>\<open>TypeError\<close>, as for a title that is
  \<^verbatim>\<open>None\<close>.
\<close>

theorem is_match_total_on_text_fields:
  assumes "text_fields_ok document"
  shows "(\<exists>matched details. is_match document = Inr (matched, details)) \<and>
         (map_of document k = None \<longrightarrow>
            is_match (doc_set document k (PStr [])) = is_match document)"
proof
  from searchable_text_total [OF assms] obtain blob where "searchable_text document = Inr blob" ..
  then show "\<exists>matched details. is_match document = Inr (matched, details)"
    by (simp add: is_match_def Let_def)
next
  show "map_of document k = None \<longrightarrow>
          is_match (doc_set document k (PStr [])) = is_match document"
    by (simp add: is_match_def searchable_text_missing)
qed

theorem is_match_total_on_text_fields_witness:
  "text_fields_ok [(''TI'', PStr ''Morocco'')] \<and>
   (\<exists>matched details. is_match [(''TI'', PStr ''Morocco'')] = Inr (matched, details)) \<and>
   is_match (doc_set [(''TI'', PStr ''Morocco'')] ''TX'' (PStr [])) = is_match [(''TI'', PStr ''Morocco'')]"
  using is_match_total_on_text_fields [of "[(''TI'', PStr ''Morocco'')]" "''TX''"]
  by (simp add: text_fields_ok_def text_fields_def)

theorem is_match_malformed_field_counterexample:
  "is_match [(''TI'', PNone)] = Inl TypeError \<and>
   is_match [(''TI'', PNone)] \<noteq> is_match [(''TI'', PStr [])]"
  by (simp add: is_match_def searchable_text_def doc_get_default_def Let_def)

subsection \<open>Enrichment\<close>

lemma doc_get_copy_fields:
  "k \<notin> fst ` set pairs \<Longrightarrow> doc_get (copy_fields pairs doc) k = doc_get doc k"
  by (induction pairs doc rule: copy_fields.induct) (auto simp: doc_get_doc_set)

lemma enrich_document_scraped_at:
  assumes "enrich_document timestamp doc = Inr enriched"
  shows "doc_get enriched ''scraped_at'' = PStr timestamp"
proof -
  have "''scraped_at'' \<notin> fst ` set normalized_fields"
    by (simp add: normalized_fields_def)
  then have "doc_get (copy_fields normalized_fields d) ''scraped_at'' = doc_get d ''scraped_at''" for d
    by (rule doc_get_copy_fields)
  then show ?thesis
    using assms
    by (auto simp: enrich_document_def Let_def doc_get_doc_set split: sum.splits if_splits)
qed

text \<open>
  Claim C9.  \<^verbatim>\<open>_enrich_documents\<close> assigns \<^verbatim>\<open>scraped_at\<close> unconditionally: a
  document that comes in with a \<^verbatim>\<open>scraped_at\<close> of 2024-06-01 leaves with the reading
  of the clock.
\<close>

theorem enrich_documents_overwrites_scraped_at:
  "map_sum id (map (\<lambda>d. doc_get d ''scraped_at''))
     (enrich_documents (\<lambda>n. ''2024-06-02T10:00:00'') 0
        [[(''TI'', PStr ''Morocco''), (''scraped_at'', PStr ''2024-06-01T09:00:00'')]]) =
   Inr [PStr ''2024-06-02T10:00:00'']"
  by code_simp

subsection \<open>Dates and the planned window\<close>

lemma plan_window_ticks [simp]:
  "plan_window f24 fcy (w\<lparr>ticks := n\<rparr>) = plan_window f24 fcy w"
  by (simp add: plan_window_def get_date_range_def watermark_def load_state_def
           split: option.splits stored.splits sum.splits)

lemma strptime_valid: "strptime s = Some d \<Longrightarrow> valid_date d"
  by (auto simp: strptime_def split: option.splits list.splits if_splits)

lemma days_in_month_pos: "1 \<le> days_in_month y m"
  by (simp add: days_in_month_def)

lemma add_one_day_defined:
  assumes "valid_date d" and "d \<noteq> Date 9999 12 31"
  shows "\<exists>next_day. add_one_day d = Inr next_day"
proof (cases d)
  case (Date y m k)
  have "days_in_month y 12 = 31" by (simp add: days_in_month_def)
  with assms Date show ?thesis
    by (auto simp: add_one_day_def valid_date_def)
qed

lemma add_one_day_next:
  assumes "valid_date d" and "add_one_day d = Inr next_day"
  shows "valid_date next_day \<and> date_less d next_day \<and>
         (\<forall>x. valid_date x \<longrightarrow> \<not> (date_less d x \<and> date_less x next_day))"
proof (cases d)
  case (Date y m k)
  have pos: "1 \<le> days_in_month y' m'" for y' m' by (rule days_in_month_pos)
  have between: "\<not> (date_less d x \<and> date_less x next_day)" if "valid_date x" for x
  proof (cases x)
    case x: (Date y' m' k')
    show ?thesis
      using assms that Date x
      by (auto simp: add_one_day_def valid_date_def date_less_def split: if_splits)
  qed
  have "valid_date next_day \<and> date_less d next_day"
    using assms Date pos [of y "Suc m"] pos [of "Suc y" 1]
    by (auto simp: add_one_day_def valid_date_def date_less_def split: if_splits)
  with between show ?thesis by blast
qed

lemma strptime_samples:
  "strptime ''2024-06-01'' = Some (Date 2024 6 1)"
  "strptime ''2024-06-10'' = Some (Date 2024 6 10)"
  "strptime ''last week'' = None"
  "strptime ''9999-12-31'' = Some (Date 9999 12 31)"
  by code_simp+

lemma sample_world_watermark:
  "watermark (sample_world (Stored (state_checked day_text)) results answer) = Some day_text"
  "watermark (sample_world Missing results answer) = None"
  by (simp_all add: watermark_def load_state_def sample_world_def state_checked_def)

lemma sample_world_today: "today (sample_world state results answer) = Date 2024 6 10"
  by (simp add: sample_world_def)

text \<open>
  Claim C4, as the code has it.  Without override flags the window ends today.  When
  the stored watermark parses as a date other than 9999-12-31, the window starts on
  the day after it: the result of \<open>add_one_day\<close>, a valid date later than the
  watermark with no valid date between the two.  When the watermark is absent or
  empty, and when it does not parse, the window starts on 2024-01-01 and nothing is
  raised.  For the watermark 9999-12-31, which parses, the addition of one day raises
  \<^verbatim>\<open>OverflowError\<close>; the planner catches \<^verbatim>\<open>ValueError\<close> only.
\<close>

theorem plan_window_from_watermark:
  "(watermark w = Some s \<and> strptime s = Some d \<and> d \<noteq> Date 9999 12 31 \<longrightarrow>
      (\<exists>from_date. plan_window False False w = Inr (from_date, today w) \<and>
         add_one_day d = Inr from_date \<and> valid_date from_date \<and> date_less d from_date \<and>
         (\<forall>x. valid_date x \<longrightarrow> \<not> (date_less d x \<and> date_less x from_date)))) \<and>
   (watermark w = None \<or> watermark w = Some [] \<longrightarrow>
      plan_window False False w = Inr (Date 2024 1 1, today w)) \<and>
   (watermark w = Some s \<and> strptime s = None \<longrightarrow>
      plan_window False False w = Inr (Date 2024 1 1, today w))"
proof (intro conjI impI)
  assume a: "watermark w = Some s \<and> strptime s = Some d \<and> d \<noteq> Date 9999 12 31"
  then have v: "valid_date d" by (auto dest: strptime_valid)
  from a have "s \<noteq> []" by (auto simp: strptime_def)
  from v a obtain from_date where n: "add_one_day d = Inr from_date"
    using add_one_day_defined by blast
  from a n \<open>s \<noteq> []\<close> have "plan_window False False w = Inr (from_date, today w)"
    by (simp add: plan_window_def get_date_range_def)
  with add_one_day_next [OF v n] n
  show "\<exists>from_date. plan_window False False w = Inr (from_date, today w) \<and>
         add_one_day d = Inr from_date \<and> valid_date from_date \<and> date_less d from_date \<and>
         (\<forall>x. valid_date x \<longrightarrow> \<not> (date_less d x \<and> date_less x from_date))"
    by blast
next
  assume "watermark w = None \<or> watermark w = Some []"
  then show "plan_window False False w = Inr (Date 2024 1 1, today w)"
    by (auto simp: plan_window_def get_date_range_def epoch_start_date_def)
next
  assume "watermark w = Some s \<and> strptime s = None"
  then show "plan_window False False w = Inr (Date 2024 1 1, today w)"
    by (auto simp: plan_window_def get_date_range_def epoch_start_date_def)
qed

theorem plan_window_from_watermark_witness:
  "plan_window False False (sample_world (Stored (state_checked ''2024-06-01'')) (Stored []) (Inr [])) =
     Inr (Date 2024 6 2, Date 2024 6 10) \<and>
   plan_window False False (sample_world Missing (Stored []) (Inr [])) =
     Inr (Date 2024 1 1, Date 2024 6 10) \<and>
   plan_window False False (sample_world (Stored (state_checked ''last week'')) (Stored []) (Inr [])) =
     Inr (Date 2024 1 1, Date 2024 6 10)"
  using
    plan_window_from_watermark
      [of "sample_world (Stored (state_checked ''2024-06-01'')) (Stored []) (Inr [])"
          "''2024-06-01''" "Date 2024 6 1"]
    plan_window_from_watermark
      [of "sample_world Missing (Stored []) (Inr [])" "''2024-06-01''" "Date 2024 6 1"]
    plan_window_from_watermark
      [of "sample_world (Stored (state_checked ''last week'')) (Stored []) (Inr [])"
          "''last week''" "Date 2024 6 1"]
  by (auto simp: strptime_samples sample_world_watermark sample_world_today add_one_day_def
        days_in_month_def)

theorem plan_window_last_day_counterexample:
  "strptime ''9999-12-31'' = Some (Date 9999 12 31) \<and> valid_date (Date 9999 12 31) \<and>
   plan_window False False
     (sample_world (Stored (state_checked ''9999-12-31'')) (Stored []) (Inr [])) =
     Inl OverflowError"
  by (simp add: strptime_samples sample_world_watermark plan_window_def get_date_range_def
        add_one_day_def days_in_month_def valid_date_def)

subsection \<open>The paths of a run\<close>

lemma plan_window_flags [simp]:
  "plan_window f24 fcy (w\<lparr>results_write := o1, state_write := o2\<rparr>) = plan_window f24 fcy w"
  by (simp add: plan_window_def get_date_range_def watermark_def load_state_def
           split: option.splits stored.splits sum.splits)

lemma load_results_simps [simp]:
  "load_results (w\<lparr>ticks := n\<rparr>) = load_results w"
  "load_results (w\<lparr>requests := r\<rparr>) = load_results w"
  "load_results (w\<lparr>results_write := o1, state_write := o2\<rparr>) = load_results w"
  by (simp_all add: load_results_def)

lemma fetch_and_merge_flags [simp]:
  "fetch_and_merge (w\<lparr>results_write := o1, state_write := o2, ticks := n\<rparr>) =
   fetch_and_merge (w\<lparr>ticks := n\<rparr>)"
  by (simp add: fetch_and_merge_def fun_eq_iff load_results_def split: sum.splits)

lemma scrape_planning_fails:
  assumes "plan_window f24 fcy w = Inl e"
  shows "scrape f24 fcy w = (Failed e, w\<lparr>ticks := Suc (Suc (ticks w))\<rparr>)"
  using assms by (simp add: scrape_def now_iso_def Let_def)

lemma scrape_already_up_to_date:
  assumes "plan_window f24 fcy w = Inr (from_date, to_date)" and "date_less to_date from_date"
  shows "scrape f24 fcy w =
         (Up_to_date (isoformat from_date) (isoformat to_date) 0 (length (load_results w)),
          save_state (w\<lparr>ticks := Suc (Suc (ticks w))\<rparr>)
            \<lparr>last_checked_date = Some (isoformat to_date),
             last_run = Some (clock w (Suc (ticks w))),
             total_documents = length (load_results w)\<rparr>)"
  using assms by (simp add: scrape_def now_iso_def Let_def)

lemma scrape_pipeline_fails:
  assumes "plan_window f24 fcy w = Inr (from_date, to_date)" and "\<not> date_less to_date from_date"
    and "fetch_and_merge (snd (now_iso w)) from_date to_date = Inl e"
  shows "scrape f24 fcy w =
         (Failed e, w\<lparr>ticks := Suc (Suc (ticks w)),
                      requests := requests w @ [(from_date, to_date)]\<rparr>)"
  using assms by (simp add: scrape_def now_iso_def Let_def)

lemma scrape_sort_fails:
  assumes "plan_window f24 fcy w = Inr (from_date, to_date)" and "\<not> date_less to_date from_date"
    and "fetch_and_merge (snd (now_iso w)) from_date to_date =
           Inr (raw_count, matched_count, existing, unique_new)"
    and "unique_new \<noteq> []" and "sort_newest_first (existing @ unique_new) = Inl e"
  shows "scrape f24 fcy w =
         (Failed e, w\<lparr>ticks := Suc (Suc (ticks w) + matched_count),
                      requests := requests w @ [(from_date, to_date)]\<rparr>)"
  using assms by (simp add: scrape_def now_iso_def Let_def)

lemma scrape_adds_documents:
  assumes "plan_window f24 fcy w = Inr (from_date, to_date)" and "\<not> date_less to_date from_date"
    and "fetch_and_merge (snd (now_iso w)) from_date to_date =
           Inr (raw_count, matched_count, existing, unique_new)"
    and "unique_new \<noteq> []" and "sort_newest_first (existing @ unique_new) = Inr all_results"
  shows "scrape f24 fcy w =
         (Success (isoformat from_date) (isoformat to_date) (length unique_new)
            (length all_results) raw_count matched_count,
          (save_state
            (save_results (w\<lparr>ticks := Suc (Suc (ticks w) + matched_count),
                              requests := requests w @ [(from_date, to_date)]\<rparr>) all_results)
            \<lparr>last_checked_date = Some (isoformat to_date),
             last_run = Some (clock w (Suc (ticks w) + matched_count)),
             total_documents = length all_results\<rparr>)
          \<lparr>ticks := Suc (Suc (Suc (ticks w) + matched_count))\<rparr>)"
  using assms
  by (simp add: scrape_def now_iso_def save_state_def save_results_def Let_def)

lemma scrape_adds_nothing:
  assumes "plan_window f24 fcy w = Inr (from_date, to_date)" and "\<not> date_less to_date from_date"
    and "fetch_and_merge (snd (now_iso w)) from_date to_date =
           Inr (raw_count, matched_count, existing, [])"
  shows "scrape f24 fcy w =
         (Success (isoformat from_date) (isoformat to_date) 0 (length existing)
            raw_count matched_count,
          (save_state
            (w\<lparr>ticks := Suc (Suc (ticks w) + matched_count),
               requests := requests w @ [(from_date, to_date)]\<rparr>)
            \<lparr>last_checked_date = Some (isoformat to_date),
             last_run = Some (clock w (Suc (ticks w) + matched_count)),
             total_documents = length existing\<rparr>)
          \<lparr>ticks := Suc (Suc (Suc (ticks w) + matched_count))\<rparr>)"
  using assms
  by (simp add: scrape_def now_iso_def save_state_def save_results_def Let_def)

lemma scrape_cases:
  obtains
    (planning) e where "plan_window f24 fcy w = Inl e"
  | (up_to_date) from_date to_date where
      "plan_window f24 fcy w = Inr (from_date, to_date)" "date_less to_date from_date"
  | (pipeline) from_date to_date e where
      "plan_window f24 fcy w = Inr (from_date, to_date)" "\<not> date_less to_date from_date"
      "fetch_and_merge (snd (now_iso w)) from_date to_date = Inl e"
  | (sorting) from_date to_date raw_count matched_count existing unique_new e where
      "plan_window f24 fcy w = Inr (from_date, to_date)" "\<not> date_less to_date from_date"
      "fetch_and_merge (snd (now_iso w)) from_date to_date =
         Inr (raw_count, matched_count, existing, unique_new)"
      "unique_new \<noteq> []" "sort_newest_first (existing @ unique_new) = Inl e"
  | (added) from_date to_date raw_count matched_count existing unique_new all_results where
      "plan_window f24 fcy w = Inr (from_date, to_date)" "\<not> date_less to_date from_date"
      "fetch_and_merge (snd (now_iso w)) from_date to_date =
         Inr (raw_count, matched_count, existing, unique_new)"
      "unique_new \<noteq> []" "sort_newest_first (existing @ unique_new) = Inr all_results"
  | (no_new) from_date to_date raw_count matched_count existing where
      "plan_window f24 fcy w = Inr (from_date, to_date)" "\<not> date_less to_date from_date"
      "fetch_and_merge (snd (now_iso w)) from_date to_date =
         Inr (raw_count, matched_count, existing, [])"
proof (cases "plan_window f24 fcy w")
  case (Inl e)
  then show ?thesis by (rule planning)
next
  case (Inr window)
  obtain from_date to_date where window: "window = (from_date, to_date)" by (cases window)
  show ?thesis
  proof (cases "date_less to_date from_date")
    case True
    with Inr window show ?thesis
      using up_to_date by blast
  next
    case later: False
    show ?thesis
    proof (cases "fetch_and_merge (snd (now_iso w)) from_date to_date")
      case (Inl e)
      with Inr window later show ?thesis
        using pipeline by blast
    next
      case merged: (Inr r)
      obtain raw_count matched_count existing unique_new
        where r: "r = (raw_count, matched_count, existing, unique_new)"
        by (cases r) auto
      show ?thesis
      proof (cases "unique_new = []")
        case True
        with merged r
        have "fetch_and_merge (snd (now_iso w)) from_date to_date =
                Inr (raw_count, matched_count, existing, [])"
          by simp
        moreover from Inr window have "plan_window f24 fcy w = Inr (from_date, to_date)"
          by simp
        ultimately show ?thesis
          using later by (intro no_new [of from_date to_date raw_count matched_count existing])
      next
        case False
        show ?thesis
        proof (cases "sort_newest_first (existing @ unique_new)")
          case (Inl e)
          with Inr window later merged r False show ?thesis
            using sorting by blast
        next
          case (Inr all_results)
          with \<open>plan_window f24 fcy w = Inr window\<close> window later merged r False show ?thesis
            using added by blast
        qed
      qed
    qed
  qed
qed

lemma isoformat_samples:
  "isoformat (Date 2024 6 2) = ''2024-06-02''"
  "isoformat (Date 2024 6 10) = ''2024-06-10''"
  "isoformat (Date 2024 6 11) = ''2024-06-11''"
  by code_simp+

lemma digit_char_samples:
  "digit_char (Suc 0) = CHR ''1''" "digit_char (Suc (Suc 0)) = CHR ''2''"
  by code_simp+

lemma sample_world_fields:
  "load_results (sample_world state (Stored docs) answer) = docs"
  "results_file (sample_world state results answer) = results"
  "state_file (sample_world state results answer) = state"
  "clock (sample_world state results answer) n = ''2024-06-10T12:00:0'' @ [digit_char n]"
  "ticks (sample_world state results answer) = 0"
  "state_write (sample_world state results answer) = Write_succeeds"
  "results_write (sample_world state results answer) = Write_succeeds"
  "requests (sample_world state results answer) = []"
  "gateway (sample_world state results answer) date_from date_to = answer"
  by (simp_all add: sample_world_def load_results_def)

lemma sample_plan:
  "plan_window False False (sample_world (Stored (state_checked ''2024-06-01'')) results answer) =
     Inr (Date 2024 6 2, Date 2024 6 10)"
  "plan_window False False (sample_world (Stored (state_checked ''2024-06-10'')) results answer) =
     Inr (Date 2024 6 11, Date 2024 6 10)"
  by (simp_all add: strptime_samples sample_world_watermark sample_world_today plan_window_def
        get_date_range_def add_one_day_def days_in_month_def)

lemma sample_later: "\<not> date_less (Date 2024 6 10) (Date 2024 6 2)"
  by (simp add: date_less_def)

lemma sample_gateway_fails:
  "fetch_and_merge
     (snd (now_iso (sample_world state results (Inl (GatewayError ''timeout'')))))
     date_from date_to = Inl (GatewayError ''timeout'')"
  by (simp add: fetch_and_merge_def now_iso_def sample_world_fields)

lemma sample_plan_unwritable:
  "plan_window False False
     ((sample_world (Stored (state_checked ''2024-06-10'')) results answer)
        \<lparr>state_write := Open_fails\<rparr>) =
     Inr (Date 2024 6 11, Date 2024 6 10)"
  by (simp add: plan_window_def get_date_range_def watermark_def load_state_def
        sample_world_def state_checked_def strptime_samples add_one_day_def days_in_month_def)

text \<open>
  Claim C5, as the code has it.  When the planned window starts after it ends,
  \<^verbatim>\<open>scrape\<close> answers \<open>up_to_date\<close> with no new document and with the size of the
  corpus it loads from the store; it leaves the corpus file alone and makes no
  request to the gateway.  It hands \<^verbatim>\<open>_save_state\<close> the state with
  \<open>last_checked_date = to_date\<close>, the reading of the clock taken for \<open>last_run\<close> and
  that size.  The state file holds this state afterwards when the write succeeds;
  when the file cannot be opened it stays as it was, and when the dump fails after
  the file was opened it is left unreadable.  In both cases the answer is the same:
  a run whose state file cannot be written answers \<open>up_to_date\<close> and the state is
  not rewritten.
\<close>

theorem scrape_up_to_date:
  assumes "plan_window f24 fcy w = Inr (from_date, to_date)" and "date_less to_date from_date"
  shows "fst (scrape f24 fcy w) =
           Up_to_date (isoformat from_date) (isoformat to_date) 0 (length (load_results w)) \<and>
         state_file (snd (scrape f24 fcy w)) =
           (case state_write w of
              Write_succeeds \<Rightarrow>
                Stored \<lparr>last_checked_date = Some (isoformat to_date),
                        last_run = Some (clock w (Suc (ticks w))),
                        total_documents = length (load_results w)\<rparr>
            | Open_fails \<Rightarrow> state_file w
            | Dump_fails \<Rightarrow> Unreadable) \<and>
         results_file (snd (scrape f24 fcy w)) = results_file w \<and>
         requests (snd (scrape f24 fcy w)) = requests w"
  by (simp add: scrape_already_up_to_date [OF assms] save_state_def write_file_def)

theorem scrape_up_to_date_witness:
  "fst (scrape False False
          (sample_world (Stored (state_checked ''2024-06-10''))
             (Stored [sample_stored_document ''32024R0000'' ''2024-03-01'']) (Inr []))) =
     Up_to_date ''2024-06-11'' ''2024-06-10'' 0 1 \<and>
   state_file (snd (scrape False False
          (sample_world (Stored (state_checked ''2024-06-10''))
             (Stored [sample_stored_document ''32024R0000'' ''2024-03-01'']) (Inr [])))) =
     Stored \<lparr>last_checked_date = Some ''2024-06-10'', last_run = Some ''2024-06-10T12:00:01'',
             total_documents = 1\<rparr> \<and>
   requests (snd (scrape False False
          (sample_world (Stored (state_checked ''2024-06-10''))
             (Stored [sample_stored_document ''32024R0000'' ''2024-03-01'']) (Inr [])))) = []"
  using scrape_up_to_date
    [of False False
        "sample_world (Stored (state_checked ''2024-06-10''))
           (Stored [sample_stored_document ''32024R0000'' ''2024-03-01'']) (Inr [])"
        "Date 2024 6 11" "Date 2024 6 10"]
  by (simp add: sample_plan isoformat_samples date_less_def sample_world_fields
        digit_char_samples)

theorem scrape_up_to_date_unwritable_counterexample:
  "fst (scrape False False
          ((sample_world (Stored (state_checked ''2024-06-10''))
              (Stored [sample_stored_document ''32024R0000'' ''2024-03-01'']) (Inr []))
             \<lparr>state_write := Open_fails\<rparr>)) =
     Up_to_date ''2024-06-11'' ''2024-06-10'' 0 1 \<and>
   state_file (snd (scrape False False
          ((sample_world (Stored (state_checked ''2024-06-10''))
              (Stored [sample_stored_document ''32024R0000'' ''2024-03-01'']) (Inr []))
             \<lparr>state_write := Open_fails\<rparr>))) =
     Stored \<lparr>last_checked_date = Some ''2024-06-10'', last_run = None, total_documents = 0\<rparr>"
proof -
  have later: "date_less (Date 2024 6 10) (Date 2024 6 11)"
    by (simp add: date_less_def)
  note run = scrape_already_up_to_date [OF sample_plan_unwritable later]
  show ?thesis
    unfolding run
    by (simp add: save_state_def write_file_def isoformat_samples sample_world_fields
          state_checked_def load_results_def)
qed

text \<open>
  Claim C6, as the code has it.  A run that ends with status \<open>error\<close> has written
  neither the state nor the corpus.  An exception raised by the planning, by the
  gateway, the matching, the enrichment, the cleaning or the deduplication
  (\<open>fetch_and_merge\<close>) or by the sort ends the run with status \<open>error\<close> and that
  exception.  A store failure is not such an exception: the four store helpers catch
  it, and the status and the figures of a run do not depend on how its writes
  end.  So a run whose corpus write fails still ends with status \<open>success\<close> and
  an advanced state.
\<close>

theorem scrape_failure_keeps_stores:
  "(fst (scrape f24 fcy w) = Failed e \<longrightarrow>
      state_file (snd (scrape f24 fcy w)) = state_file w \<and>
      results_file (snd (scrape f24 fcy w)) = results_file w) \<and>
   (plan_window f24 fcy w = Inl e \<longrightarrow> fst (scrape f24 fcy w) = Failed e) \<and>
   (plan_window f24 fcy w = Inr (from_date, to_date) \<and> \<not> date_less to_date from_date \<and>
    fetch_and_merge (snd (now_iso w)) from_date to_date = Inl e \<longrightarrow>
      fst (scrape f24 fcy w) = Failed e) \<and>
   (plan_window f24 fcy w = Inr (from_date, to_date) \<and> \<not> date_less to_date from_date \<and>
    fetch_and_merge (snd (now_iso w)) from_date to_date =
      Inr (raw_count, matched_count, existing, unique_new) \<and>
    unique_new \<noteq> [] \<and> sort_newest_first (existing @ unique_new) = Inl e \<longrightarrow>
      fst (scrape f24 fcy w) = Failed e) \<and>
   fst (scrape f24 fcy (w\<lparr>results_write := o1, state_write := o2\<rparr>)) =
     fst (scrape f24 fcy w)"
proof (intro conjI impI)
  assume failed: "fst (scrape f24 fcy w) = Failed e"
  show "state_file (snd (scrape f24 fcy w)) = state_file w"
    using failed
    by (cases rule: scrape_cases [of f24 fcy w])
       (simp_all add: scrape_planning_fails scrape_already_up_to_date scrape_pipeline_fails
          scrape_sort_fails scrape_adds_documents scrape_adds_nothing)
  show "results_file (snd (scrape f24 fcy w)) = results_file w"
    using failed
    by (cases rule: scrape_cases [of f24 fcy w])
       (simp_all add: scrape_planning_fails scrape_already_up_to_date scrape_pipeline_fails
          scrape_sort_fails scrape_adds_documents scrape_adds_nothing)
next
  assume "plan_window f24 fcy w = Inl e"
  then show "fst (scrape f24 fcy w) = Failed e"
    by (simp add: scrape_planning_fails)
next
  assume "plan_window f24 fcy w = Inr (from_date, to_date) \<and> \<not> date_less to_date from_date \<and>
    fetch_and_merge (snd (now_iso w)) from_date to_date = Inl e"
  then show "fst (scrape f24 fcy w) = Failed e"
    by (simp add: scrape_pipeline_fails)
next
  assume "plan_window f24 fcy w = Inr (from_date, to_date) \<and> \<not> date_less to_date from_date \<and>
    fetch_and_merge (snd (now_iso w)) from_date to_date =
      Inr (raw_count, matched_count, existing, unique_new) \<and>
    unique_new \<noteq> [] \<and> sort_newest_first (existing @ unique_new) = Inl e"
  then show "fst (scrape f24 fcy w) = Failed e"
    by (simp add: scrape_sort_fails)
next
  let ?w = "w\<lparr>results_write := o1, state_write := o2\<rparr>"
  have fm: "fetch_and_merge (snd (now_iso ?w)) = fetch_and_merge (snd (now_iso w))"
    by (simp add: now_iso_def)
  have pw: "plan_window f24 fcy ?w = plan_window f24 fcy w" by simp
  show "fst (scrape f24 fcy ?w) = fst (scrape f24 fcy w)"
    by (cases rule: scrape_cases [of f24 fcy w])
       (simp_all add: scrape_planning_fails scrape_already_up_to_date scrape_pipeline_fails
          scrape_sort_fails scrape_adds_documents scrape_adds_nothing fm pw)
qed

theorem scrape_failure_keeps_stores_witness:
  "fst (scrape False False
          (sample_world (Stored (state_checked ''2024-06-01'')) (Stored [])
             (Inl (GatewayError ''timeout'')))) = Failed (GatewayError ''timeout'') \<and>
   state_file (snd (scrape False False
          (sample_world (Stored (state_checked ''2024-06-01'')) (Stored [])
             (Inl (GatewayError ''timeout''))))) = Stored (state_checked ''2024-06-01'') \<and>
   results_file (snd (scrape False False
          (sample_world (Stored (state_checked ''2024-06-01'')) (Stored [])
             (Inl (GatewayError ''timeout''))))) = Stored []"
  using scrape_failure_keeps_stores
    [of False False
        "sample_world (Stored (state_checked ''2024-06-01'')) (Stored [])
           (Inl (GatewayError ''timeout''))"
        "GatewayError ''timeout''" "Date 2024 6 2" "Date 2024 6 10"]
  by (simp add: sample_plan sample_later sample_gateway_fails sample_world_fields)

lemma sample_fetch_unwritable:
  "fetch_and_merge
     (snd (now_iso ((sample_world (Stored (state_checked ''2024-06-01'')) (Stored [])
                       (Inr [sample_raw_document]))\<lparr>results_write := Open_fails\<rparr>)))
     (Date 2024 6 2) (Date 2024 6 10) = Inr (1, 1, [], [sample_enriched_document])"
  by code_simp

lemma sample_sort_one:
  "sort_newest_first ([] @ [sample_enriched_document]) = Inr [sample_enriched_document]"
  by (simp add: sort_newest_first_def)

theorem scrape_write_failure_counterexample:
  "fst (scrape False False
          ((sample_world (Stored (state_checked ''2024-06-01'')) (Stored [])
              (Inr [sample_raw_document]))\<lparr>results_write := Open_fails\<rparr>)) =
     Success ''2024-06-02'' ''2024-06-10'' 1 1 1 1 \<and>
   results_file (snd (scrape False False
          ((sample_world (Stored (state_checked ''2024-06-01'')) (Stored [])
              (Inr [sample_raw_document]))\<lparr>results_write := Open_fails\<rparr>))) = Stored [] \<and>
   state_file (snd (scrape False False
          ((sample_world (Stored (state_checked ''2024-06-01'')) (Stored [])
              (Inr [sample_raw_document]))\<lparr>results_write := Open_fails\<rparr>))) =
     Stored \<lparr>last_checked_date = Some ''2024-06-10'', last_run = Some ''2024-06-10T12:00:02'',
             total_documents = 1\<rparr>"
proof -
  let ?w = "(sample_world (Stored (state_checked ''2024-06-01'')) (Stored [])
              (Inr [sample_raw_document]))\<lparr>results_write := Open_fails\<rparr>"
  have plan: "plan_window False False ?w = Inr (Date 2024 6 2, Date 2024 6 10)"
    by (simp add: plan_window_def get_date_range_def watermark_def load_state_def
          sample_world_def state_checked_def strptime_samples add_one_day_def days_in_month_def)
  show ?thesis
    by (simp add: scrape_adds_documents [OF plan sample_later sample_fetch_unwritable _ sample_sort_one]
          save_state_def save_results_def write_file_def isoformat_samples sample_world_fields
          digit_char_samples)
qed

subsection \<open>The persisted corpus\<close>

lemma sort_newest_first_mset:
  "sort_newest_first docs = Inr sorted_docs \<Longrightarrow> mset sorted_docs = mset docs"
  by (auto simp: sort_newest_first_def split: if_splits)

lemma sort_newest_first_length:
  "sort_newest_first docs = Inr sorted_docs \<Longrightarrow> length sorted_docs = length docs"
  by (auto simp: sort_newest_first_def split: if_splits)

lemma sort_newest_first_sorted:
  assumes "sort_newest_first docs = Inr sorted_docs"
    and "list_all (\<lambda>d. is_str (publication_key d)) docs"
  shows "newest_first sorted_docs"
proof (cases "length docs \<le> 1")
  case True
  then have "docs = [] \<or> (\<exists>d. docs = [d])"
    by (cases docs) (auto simp: Suc_le_eq)
  with assms(1) True show ?thesis
    by (auto simp: sort_newest_first_def newest_first_def)
next
  case False
  with assms have "sorted_docs = rev (sort_key (\<lambda>d. str_of (publication_key d)) (rev docs))"
    by (simp add: sort_newest_first_def)
  then show ?thesis
    by (simp add: newest_first_def rev_map)
qed

lemma fetch_and_merge_stages:
  assumes "gateway w from_date to_date = Inr raw_documents"
    and "filter_documents raw_documents = Inr matched_documents"
    and "enrich_documents (clock w) (Suc (ticks w)) matched_documents = Inr enriched_documents"
    and "clean_existing_duplicates (load_results w) = Inr existing"
    and "deduplicate_documents existing enriched_documents = Inr unique_new"
  shows "fetch_and_merge (snd (now_iso w)) from_date to_date =
           Inr (length raw_documents, length matched_documents, existing, unique_new)"
  using assms by (simp add: fetch_and_merge_def now_iso_def)

lemma sample_stages:
  "filter_documents [sample_raw_document] = Inr [sample_matched_document]"
  "enrich_documents
     (clock (sample_world (Stored (state_checked ''2024-06-01''))
               (Stored [sample_stored_document ''32024R0000'' ''2024-03-01''])
               (Inr [sample_raw_document])))
     (Suc (ticks (sample_world (Stored (state_checked ''2024-06-01''))
                    (Stored [sample_stored_document ''32024R0000'' ''2024-03-01''])
                    (Inr [sample_raw_document]))))
     [sample_matched_document] = Inr [sample_enriched_document]"
  "clean_existing_duplicates
     (load_results (sample_world (Stored (state_checked ''2024-06-01''))
                      (Stored [sample_stored_document ''32024R0000'' ''2024-03-01''])
                      (Inr [sample_raw_document]))) =
     Inr [sample_stored_document ''32024R0000'' ''2024-03-01'']"
  "deduplicate_documents [sample_stored_document ''32024R0000'' ''2024-03-01'']
     [sample_enriched_document] = Inr [sample_enriched_document]"
  by code_simp+

lemma sample_sort_two:
  "sort_newest_first
     ([sample_stored_document ''32024R0000'' ''2024-03-01''] @ [sample_enriched_document]) =
   Inr [sample_enriched_document, sample_stored_document ''32024R0000'' ''2024-03-01'']"
  by code_simp

lemma sample_keys:
  "list_all (\<lambda>d. is_str (publication_key d))
     ([sample_stored_document ''32024R0000'' ''2024-03-01''] @ [sample_enriched_document])"
  by code_simp

lemma sample_fetch_nothing:
  "fetch_and_merge
     (snd (now_iso (sample_world (Stored (state_checked ''2024-06-01''))
                      (Stored [sample_stored_document ''32024R0001'' ''2024-01-15'',
                               sample_stored_document ''32024R0002'' ''2024-02-15''])
                      (Inr []))))
     (Date 2024 6 2) (Date 2024 6 10) =
   Inr (0, 0, [sample_stored_document ''32024R0001'' ''2024-01-15'',
               sample_stored_document ''32024R0002'' ''2024-02-15''], [])"
  by code_simp

lemma sample_unsorted:
  "\<not> newest_first [sample_stored_document ''32024R0001'' ''2024-01-15'',
                    sample_stored_document ''32024R0002'' ''2024-02-15'']"
  by code_simp

text \<open>
  Claim C7, as the code has it.  Take a run that gets through the pipeline: the
  gateway answers with the raw documents, the matcher keeps the matched documents,
  these are enriched, \<open>existing\<close> is the stored corpus after cleaning, and
  \<open>unique_new\<close> is what the deduplication keeps of the enriched documents against
  \<open>existing\<close>.  When there is a unique new document, the run hands
  \<^verbatim>\<open>_save_results\<close> the corpus \<open>existing @ unique_new\<close> sorted newest first (the
  same documents, by publication date descending when these dates are strings) and
  hands \<^verbatim>\<open>_save_state\<close> the state with \<open>last_checked_date = to_date\<close>, the
  reading of the clock and the length of that corpus.  A file holds what it was
  handed when its write succeeds; it stays as it was when it cannot be opened, and is
  left unreadable when the dump fails after the file was opened.  When there is no
  unique new document the corpus is not written: the store keeps what it held, sorted
  or not, and the state is handed the length of the cleaned corpus, which is the
  length of the store when cleaning drops nothing.
\<close>

theorem scrape_persists_merged_corpus:
  assumes "plan_window f24 fcy w = Inr (from_date, to_date)" and "\<not> date_less to_date from_date"
    and "gateway w from_date to_date = Inr raw_documents"
    and "filter_documents raw_documents = Inr matched_documents"
    and "enrich_documents (clock w) (Suc (ticks w)) matched_documents = Inr enriched_documents"
    and "clean_existing_duplicates (load_results w) = Inr existing"
    and "deduplicate_documents existing enriched_documents = Inr unique_new"
  shows "(unique_new \<noteq> [] \<and> sort_newest_first (existing @ unique_new) = Inr all_results \<longrightarrow>
            fst (scrape f24 fcy w) =
              Success (isoformat from_date) (isoformat to_date) (length unique_new)
                (length all_results) (length raw_documents) (length matched_documents) \<and>
            results_file (snd (scrape f24 fcy w)) =
              (case results_write w of
                 Write_succeeds \<Rightarrow> Stored all_results
               | Open_fails \<Rightarrow> results_file w
               | Dump_fails \<Rightarrow> Unreadable) \<and>
            state_file (snd (scrape f24 fcy w)) =
              (case state_write w of
                 Write_succeeds \<Rightarrow>
                   Stored \<lparr>last_checked_date = Some (isoformat to_date),
                           last_run = Some (clock w (Suc (ticks w) + length matched_documents)),
                           total_documents = length all_results\<rparr>
               | Open_fails \<Rightarrow> state_file w
               | Dump_fails \<Rightarrow> Unreadable) \<and>
            mset all_results = mset existing + mset unique_new \<and>
            (list_all (\<lambda>d. is_str (publication_key d)) (existing @ unique_new) \<longrightarrow>
               newest_first all_results)) \<and>
         (unique_new = [] \<longrightarrow>
            fst (scrape f24 fcy w) =
              Success (isoformat from_date) (isoformat to_date) 0 (length existing)
                (length raw_documents) (length matched_documents) \<and>
            results_file (snd (scrape f24 fcy w)) = results_file w \<and>
            state_file (snd (scrape f24 fcy w)) =
              (case state_write w of
                 Write_succeeds \<Rightarrow>
                   Stored \<lparr>last_checked_date = Some (isoformat to_date),
                           last_run = Some (clock w (Suc (ticks w) + length matched_documents)),
                           total_documents = length existing\<rparr>
               | Open_fails \<Rightarrow> state_file w
               | Dump_fails \<Rightarrow> Unreadable))"
proof (intro conjI impI)
  note merged = fetch_and_merge_stages [OF assms(3-7)]
  {
    assume a: "unique_new \<noteq> [] \<and> sort_newest_first (existing @ unique_new) = Inr all_results"
    then have new: "unique_new \<noteq> []"
      and sorted: "sort_newest_first (existing @ unique_new) = Inr all_results"
      by simp_all
    note run = scrape_adds_documents [OF assms(1) assms(2) merged new sorted]
    show "fst (scrape f24 fcy w) =
        Success (isoformat from_date) (isoformat to_date) (length unique_new)
          (length all_results) (length raw_documents) (length matched_documents)"
      by (simp add: run)
    show "results_file (snd (scrape f24 fcy w)) =
        (case results_write w of
           Write_succeeds \<Rightarrow> Stored all_results
         | Open_fails \<Rightarrow> results_file w
         | Dump_fails \<Rightarrow> Unreadable)"
      by (simp add: run save_state_def save_results_def write_file_def
            split: write_outcome.splits)
    show "state_file (snd (scrape f24 fcy w)) =
        (case state_write w of
           Write_succeeds \<Rightarrow>
             Stored \<lparr>last_checked_date = Some (isoformat to_date),
                     last_run = Some (clock w (Suc (ticks w) + length matched_documents)),
                     total_documents = length all_results\<rparr>
         | Open_fails \<Rightarrow> state_file w
         | Dump_fails \<Rightarrow> Unreadable)"
      by (simp add: run save_state_def save_results_def write_file_def
            split: write_outcome.splits)
    show "mset all_results = mset existing + mset unique_new"
      using sort_newest_first_mset [OF sorted] by simp
    show "newest_first all_results"
      if "list_all (\<lambda>d. is_str (publication_key d)) (existing @ unique_new)"
      using sorted that by (rule sort_newest_first_sorted)
  }
  {
    assume none: "unique_new = []"
    note run = scrape_adds_nothing [OF assms(1) assms(2) merged [unfolded none]]
    show "fst (scrape f24 fcy w) =
        Success (isoformat from_date) (isoformat to_date) 0 (length existing)
          (length raw_documents) (length matched_documents)"
      by (simp add: run)
    show "results_file (snd (scrape f24 fcy w)) = results_file w"
      by (simp add: run save_state_def)
    show "state_file (snd (scrape f24 fcy w)) =
        (case state_write w of
           Write_succeeds \<Rightarrow>
             Stored \<lparr>last_checked_date = Some (isoformat to_date),
                     last_run = Some (clock w (Suc (ticks w) + length matched_documents)),
                     total_documents = length existing\<rparr>
         | Open_fails \<Rightarrow> state_file w
         | Dump_fails \<Rightarrow> Unreadable)"
      by (simp add: run save_state_def write_file_def split: write_outcome.splits)
  }
qed

theorem scrape_persists_merged_corpus_witness:
  "fst (scrape False False
          (sample_world (Stored (state_checked ''2024-06-01''))
             (Stored [sample_stored_document ''32024R0000'' ''2024-03-01''])
             (Inr [sample_raw_document]))) =
     Success ''2024-06-02'' ''2024-06-10'' 1 2 1 1 \<and>
   results_file (snd (scrape False False
          (sample_world (Stored (state_checked ''2024-06-01''))
             (Stored [sample_stored_document ''32024R0000'' ''2024-03-01''])
             (Inr [sample_raw_document])))) =
     Stored [sample_enriched_document, sample_stored_document ''32024R0000'' ''2024-03-01''] \<and>
   state_file (snd (scrape False False
          (sample_world (Stored (state_checked ''2024-06-01''))
             (Stored [sample_stored_document ''32024R0000'' ''2024-03-01''])
             (Inr [sample_raw_document])))) =
     Stored \<lparr>last_checked_date = Some ''2024-06-10'', last_run = Some ''2024-06-10T12:00:02'',
             total_documents = 2\<rparr> \<and>
   newest_first [sample_enriched_document, sample_stored_document ''32024R0000'' ''2024-03-01'']"
  using scrape_persists_merged_corpus
    [OF sample_plan(1) sample_later sample_world_fields(9) sample_stages,
     of "[sample_enriched_document, sample_stored_document ''32024R0000'' ''2024-03-01'']"]
    sample_sort_two sample_keys
  by (simp add: isoformat_samples sample_world_fields digit_char_samples)

theorem scrape_without_new_documents_counterexample:
  "fst (scrape False False
          (sample_world (Stored (state_checked ''2024-06-01''))
             (Stored [sample_stored_document ''32024R0001'' ''2024-01-15'',
                      sample_stored_document ''32024R0002'' ''2024-02-15''])
             (Inr []))) =
     Success ''2024-06-02'' ''2024-06-10'' 0 2 0 0 \<and>
   results_file (snd (scrape False False
          (sample_world (Stored (state_checked ''2024-06-01''))
             (Stored [sample_stored_document ''32024R0001'' ''2024-01-15'',
                      sample_stored_document ''32024R0002'' ''2024-02-15''])
             (Inr [])))) =
     Stored [sample_stored_document ''32024R0001'' ''2024-01-15'',
             sample_stored_document ''32024R0002'' ''2024-02-15''] \<and>
   \<not> newest_first [sample_stored_document ''32024R0001'' ''2024-01-15'',
                    sample_stored_document ''32024R0002'' ''2024-02-15''] \<and>
   sort_newest_first [sample_stored_document ''32024R0001'' ''2024-01-15'',
                      sample_stored_document ''32024R0002'' ''2024-02-15''] =
     Inr [sample_stored_document ''32024R0002'' ''2024-02-15'',
          sample_stored_document ''32024R0001'' ''2024-01-15'']"
proof -
  have sorted: "sort_newest_first [sample_stored_document ''32024R0001'' ''2024-01-15'',
                      sample_stored_document ''32024R0002'' ''2024-02-15''] =
     Inr [sample_stored_document ''32024R0002'' ''2024-02-15'',
          sample_stored_document ''32024R0001'' ''2024-01-15'']"
    by code_simp
  show ?thesis
    by (simp add: scrape_adds_nothing [OF sample_plan(1) sample_later sample_fetch_nothing]
          sample_unsorted sorted save_state_def isoformat_samples sample_world_fields)
qed

end
